theory Spec2Isabelle
  imports Complex_Main
begin

section \<open>Python values and text\<close>

text \<open>
  The repository is Python. Its texts are modelled as HOL strings, that is as the byte
  strings the source files and the process boundary carry (UTF-8); the functions of
  \<^verbatim>\<open>str\<close> that classify characters (\<^verbatim>\<open>lower\<close>, \<^verbatim>\<open>strip\<close>,
  \<^verbatim>\<open>int\<close>) are modelled on ASCII, bytes above 127 being left alone, so the model is exact on
  ASCII text. A non-ASCII character of a \<^verbatim>\<open>print\<close> statement is written as a named
  constant holding its UTF-8 bytes.
\<close>

datatype pyval = PyNone | PyBool bool | PyInt int | PyStr string

abbreviation NL :: char where
  "NL \<equiv> CHR 0x0A"

fun truthy :: "pyval \<Rightarrow> bool" where
  "truthy PyNone = False"
| "truthy (PyBool b) = b"
| "truthy (PyInt i) = (i \<noteq> 0)"
| "truthy (PyStr s) = (s \<noteq> [])"

definition digit_char :: "nat \<Rightarrow> char" where
  "digit_char d = ''0123456789'' ! d"

fun dec_of_nat :: "nat \<Rightarrow> string" where
  "dec_of_nat n = (if n < 10 then [digit_char n] else dec_of_nat (n div 10) @ [digit_char (n mod 10)])"

declare dec_of_nat.simps [simp del]

definition dec_of_int :: "int \<Rightarrow> string" where
  "dec_of_int i = (if i < 0 then CHR ''-'' # dec_of_nat (nat (- i)) else dec_of_nat (nat i))"

text \<open>\<^verbatim>\<open>str(v)\<close>, which is also how an f-string formats \<^verbatim>\<open>{v}\<close>.\<close>

fun py_str :: "pyval \<Rightarrow> string" where
  "py_str PyNone = ''None''"
| "py_str (PyBool b) = (if b then ''True'' else ''False'')"
| "py_str (PyInt i) = dec_of_int i"
| "py_str (PyStr s) = s"

text \<open>\<^verbatim>\<open>s.startswith(p)\<close> and \<^verbatim>\<open>sub in s\<close>.\<close>

fun startswith :: "string \<Rightarrow> string \<Rightarrow> bool" where
  "startswith s [] = True"
| "startswith [] (p # ps) = False"
| "startswith (c # cs) (p # ps) = (c = p \<and> startswith cs ps)"

fun contains :: "string \<Rightarrow> string \<Rightarrow> bool" where
  "contains [] sub = (sub = [])"
| "contains (c # cs) sub = (startswith (c # cs) sub \<or> contains cs sub)"

definition is_digit :: "char \<Rightarrow> bool" where
  "is_digit c = (c \<in> set ''0123456789'')"

definition is_space :: "char \<Rightarrow> bool" where
  "is_space c = (c \<in> set [CHR '' '', CHR 0x09, CHR 0x0A, CHR 0x0B, CHR 0x0C, CHR 0x0D,
                             CHR 0x1C, CHR 0x1D, CHR 0x1E, CHR 0x1F])"

definition strip :: "string \<Rightarrow> string" where
  "strip s = rev (dropWhile is_space (rev (dropWhile is_space s)))"

definition lower_char :: "char \<Rightarrow> char" where
  "lower_char c =
     (case map_of (zip ''ABCDEFGHIJKLMNOPQRSTUVWXYZ'' ''abcdefghijklmnopqrstuvwxyz'') c of
        Some l \<Rightarrow> l
      | None \<Rightarrow> c)"

definition lower :: "string \<Rightarrow> string" where
  "lower s = map lower_char s"


section \<open>The command-line parser of the agent scripts\<close>

text \<open>
  Every agent script builds an \<^verbatim>\<open>argparse.ArgumentParser\<close> with optional arguments only
  and calls \<^verbatim>\<open>parse_args()\<close>. The library is not part of the repository; what follows is
  its algorithm for such parsers (CPython 3.11, \<^verbatim>\<open>_parse_known_args\<close>): a first pass
  classifies every argument string as an option or a plain argument, a second pass consumes
  the options from left to right. \<^verbatim>\<open>parse_args\<close> either returns a namespace, or prints
  the help text and exits with status 0, or prints a usage error and exits with status 2.
  \<^verbatim>\<open>int\<close> is Python's conversion of a decimal literal; the limit CPython puts on the
  number of digits, which \<^verbatim>\<open>sys.set_int_max_str_digits\<close> configures, is not modelled.
\<close>

datatype arg_type = AsStr | AsInt

datatype action_kind = StoreTrue | Store arg_type "string list option" | Help

record action =
  option_strings :: "string list"
  dest :: string
  kind :: action_kind
  default_value :: pyval

type_synonym parser = "action list"

type_synonym namespace = "string \<rightharpoonup> pyval"

datatype usage_error =
    AmbiguousOption string "string list"
  | ExpectedOneArgument string
  | IgnoredExplicitArgument string
  | InvalidChoice string
  | InvalidIntValue string
  | UnrecognizedArguments "string list"

datatype parse_result = Parsed namespace | HelpExit | UsageError usage_error

text \<open>
  A classified argument string: a plain argument, the separator \<^verbatim>\<open>--\<close>, or an option with
  the action it resolved to (if any), the option string, whether an \<^verbatim>\<open>=\<close> separated an
  explicit argument, and that explicit argument.
\<close>

datatype token = Arg | DashDash | Opt "action option" string bool "string option"

text \<open>\<^verbatim>\<open>add_argument\<close> infers the destination: the first long option string, else the first
  one, without its leading dashes and with \<^verbatim>\<open>-\<close> replaced by \<^verbatim>\<open>_\<close>.\<close>

definition is_long :: "string \<Rightarrow> bool" where
  "is_long s = (case s of c0 # c1 # cs \<Rightarrow> c1 = CHR ''-'' | _ \<Rightarrow> False)"

definition infer_dest :: "string list \<Rightarrow> string" where
  "infer_dest flags =
     (let chosen = (case filter is_long flags of l # ls \<Rightarrow> l
                    | [] \<Rightarrow> (case flags of f # fs \<Rightarrow> f | [] \<Rightarrow> []))
      in map (\<lambda>c. if c = CHR ''-'' then CHR ''_'' else c) (dropWhile (\<lambda>c. c = CHR ''-'') chosen))"

definition add_argument :: "string list \<Rightarrow> action_kind \<Rightarrow> pyval \<Rightarrow> action" where
  "add_argument flags k d = \<lparr>option_strings = flags, dest = infer_dest flags, kind = k, default_value = d\<rparr>"

definition store_true :: "string list \<Rightarrow> action" where
  "store_true flags = add_argument flags StoreTrue (PyBool False)"

definition help_action :: action where
  "help_action = \<lparr>option_strings = [''-h'', ''--help''], dest = ''help'', kind = Help, default_value = PyNone\<rparr>"

text \<open>\<^verbatim>\<open>ArgumentParser(...)\<close> adds \<^verbatim>\<open>-h/--help\<close> before the script's own arguments.\<close>

definition ArgumentParser :: "action list \<Rightarrow> parser" where
  "ArgumentParser acts = help_action # acts"

definition option_string_actions :: "parser \<Rightarrow> (string \<times> action) list" where
  "option_string_actions p = concat (map (\<lambda>a. map (\<lambda>s. (s, a)) (option_strings a)) p)"

definition find_option :: "parser \<Rightarrow> string \<Rightarrow> action option" where
  "find_option p s = map_of (option_string_actions p) s"

text \<open>The namespace starts with every action's default (the first action of a destination
  decides); the help action has none.\<close>

fun initial_namespace :: "parser \<Rightarrow> namespace" where
  "initial_namespace [] = Map.empty"
| "initial_namespace (a # as) =
     (let ns = initial_namespace as
      in if kind a = Help then ns else ns(dest a \<mapsto> default_value a))"

text \<open>\<^verbatim>\<open>s.partition('=')\<close>: the text before the first \<^verbatim>\<open>=\<close>, whether there is one, and the
  text after it.\<close>

definition partition_eq :: "string \<Rightarrow> string \<times> bool \<times> string" where
  "partition_eq s =
     (case dropWhile (\<lambda>c. c \<noteq> CHR ''='') s of
        [] \<Rightarrow> (s, False, [])
      | e # after \<Rightarrow> (takeWhile (\<lambda>c. c \<noteq> CHR ''='') s, True, after))"

text \<open>\<^verbatim>\<open>_get_option_tuples\<close>: the options an argument string abbreviates. A long argument
  matches every option string it is a prefix of; a short one matches the option string
  equal to its first two characters, the rest being an explicit argument.\<close>

fun get_option_tuples :: "parser \<Rightarrow> string \<Rightarrow> token list" where
  "get_option_tuples p (c0 # c1 # cs) =
     (if c0 = CHR ''-'' \<and> c1 = CHR ''-'' then
        (case partition_eq (c0 # c1 # cs) of (option_prefix, sep, explicit_arg) \<Rightarrow>
           map (\<lambda>(os, a). Opt (Some a) os sep (if sep then Some explicit_arg else None))
             (filter (\<lambda>(os, a). startswith os option_prefix) (option_string_actions p)))
      else if c0 = CHR ''-'' then
        concat (map (\<lambda>(os, a).
            if os = [c0, c1] then [Opt (Some a) os False (Some cs)]
            else if startswith os (c0 # c1 # cs) then [Opt (Some a) os False None]
            else [])
          (option_string_actions p))
      else [])"
| "get_option_tuples p s = []"

text \<open>The pattern \<^verbatim>\<open>^-\d+$|^-\d*\.\d+$\<close> of a negative number; \<^verbatim>\<open>$\<close> also matches before
  a final newline.\<close>

definition negative_number :: "string \<Rightarrow> bool" where
  "negative_number s =
     (case s of
        c # cs \<Rightarrow>
          c = CHR ''-'' \<and>
          (let body = (if cs \<noteq> [] \<and> last cs = NL then butlast cs else cs);
               whole = takeWhile is_digit body;
               frac = dropWhile is_digit body
           in (whole \<noteq> [] \<and> frac = []) \<or>
              (case frac of d # ds \<Rightarrow> d = CHR ''.'' \<and> ds \<noteq> [] \<and> list_all is_digit ds | [] \<Rightarrow> False))
      | [] \<Rightarrow> False)"

text \<open>\<^verbatim>\<open>_parse_optional\<close>: \<^verbatim>\<open>None\<close> (a plain argument) is \<open>Arg\<close>.\<close>

definition parse_optional :: "parser \<Rightarrow> string \<Rightarrow> usage_error + token" where
  "parse_optional p s =
     (if s = [] then Inr Arg
      else if hd s \<noteq> CHR ''-'' then Inr Arg
      else case find_option p s of
        Some a \<Rightarrow> Inr (Opt (Some a) s False None)
      | None \<Rightarrow>
          if length s = 1 then Inr Arg
          else case partition_eq s of (option_string, sep, explicit_arg) \<Rightarrow>
            (case (if sep then find_option p option_string else None) of
               Some a \<Rightarrow> Inr (Opt (Some a) option_string True (Some explicit_arg))
             | None \<Rightarrow>
                 (case get_option_tuples p s of
                    [t] \<Rightarrow> Inr t
                  | t # t' # ts \<Rightarrow>
                      Inl (AmbiguousOption s
                             (map (\<lambda>t. case t of Opt a os sp ea \<Rightarrow> os | _ \<Rightarrow> []) (t # t' # ts)))
                  | [] \<Rightarrow>
                      if negative_number s then Inr Arg
                      else if CHR '' '' \<in> set s then Inr Arg
                      else Inr (Opt None s False None))))"

text \<open>The first pass. Everything after \<^verbatim>\<open>--\<close> is a plain argument.\<close>

fun classify :: "parser \<Rightarrow> string list \<Rightarrow> usage_error + (string \<times> token) list" where
  "classify p [] = Inr []"
| "classify p (s # ss) =
     (if s = ''--'' then Inr ((s, DashDash) # map (\<lambda>t. (t, Arg)) ss)
      else case parse_optional p s of
        Inl e \<Rightarrow> Inl e
      | Inr tok \<Rightarrow>
          (case classify p ss of
             Inl e \<Rightarrow> Inl e
           | Inr toks \<Rightarrow> Inr ((s, tok) # toks)))"

text \<open>Python's \<^verbatim>\<open>int(s)\<close> on a decimal literal: surrounding whitespace, a sign, digits with
  single underscores between them.\<close>

fun digits_ok :: "string \<Rightarrow> bool" where
  "digits_ok [] = False"
| "digits_ok [c] = is_digit c"
| "digits_ok (c # d # cs) =
     (is_digit c \<and> (if d = CHR ''_'' then digits_ok cs else digits_ok (d # cs)))"

definition digit_value :: "char \<Rightarrow> nat" where
  "digit_value c = (of_char c :: nat) - 48"

definition nat_of_digits :: "string \<Rightarrow> nat" where
  "nat_of_digits ds = foldl (\<lambda>n c. 10 * n + digit_value c) 0 ds"

definition py_int :: "string \<Rightarrow> int option" where
  "py_int s =
     (let t = strip s;
          neg = (t \<noteq> [] \<and> hd t = CHR ''-'');
          body = (if t \<noteq> [] \<and> (hd t = CHR ''-'' \<or> hd t = CHR ''+'') then tl t else t);
          ds = filter is_digit body
      in if digits_ok body
         then Some (if neg then - int (nat_of_digits ds) else int (nat_of_digits ds))
         else None)"

text \<open>\<^verbatim>\<open>_get_values\<close> for one argument string: conversion by the type, then the check
  against the choices.\<close>

definition get_values :: "action \<Rightarrow> arg_type \<Rightarrow> string list option \<Rightarrow> string \<Rightarrow> usage_error + pyval" where
  "get_values a ty choices s =
     (case (case ty of AsStr \<Rightarrow> Some (PyStr s) | AsInt \<Rightarrow> map_option PyInt (py_int s)) of
        None \<Rightarrow> Inl (InvalidIntValue s)
      | Some v \<Rightarrow>
          (case choices of
             None \<Rightarrow> Inr v
           | Some cs \<Rightarrow> if v \<in> set (map PyStr cs) then Inr v else Inl (InvalidChoice s)))"

definition take_action :: "action \<Rightarrow> string list \<Rightarrow> namespace \<Rightarrow> parse_result" where
  "take_action a args ns =
     (case kind a of
        Help \<Rightarrow> HelpExit
      | StoreTrue \<Rightarrow> Parsed (ns(dest a \<mapsto> PyBool True))
      | Store ty choices \<Rightarrow>
          (case args of
             [s] \<Rightarrow> (case get_values a ty choices s of
                       Inl e \<Rightarrow> UsageError e
                     | Inr v \<Rightarrow> Parsed (ns(dest a \<mapsto> v)))
           | _ \<Rightarrow> UsageError (ExpectedOneArgument (dest a))))"

fun take_actions :: "(action \<times> string list) list \<Rightarrow> namespace \<Rightarrow> parse_result" where
  "take_actions [] ns = Parsed ns"
| "take_actions ((a, args) # ts) ns =
     (case take_action a args ns of
        Parsed ns' \<Rightarrow> take_actions ts ns'
      | r \<Rightarrow> r)"

text \<open>The number of argument strings an action takes (\<^verbatim>\<open>nargs\<close>): none for a flag and
  for help, one for a stored value.\<close>

definition takes_value :: "action \<Rightarrow> bool" where
  "takes_value a = (case kind a of Store ty choices \<Rightarrow> True | _ \<Rightarrow> False)"

text \<open>
  \<^verbatim>\<open>consume_optional\<close> for an option with action \<open>a\<close>: the actions to take with their
  argument strings, the strings that go to the unrecognised extras, and how many of the
  following argument strings were used. A short flag with an explicit argument is a
  cluster (\<^verbatim>\<open>-vh\<close> is \<^verbatim>\<open>-v -h\<close>); the loop walks along the explicit argument.
\<close>

fun consume_optional ::
  "parser \<Rightarrow> action \<Rightarrow> string \<Rightarrow> bool \<Rightarrow> string option \<Rightarrow> (string \<times> token) list
    \<Rightarrow> usage_error + ((action \<times> string list) list \<times> string list \<times> nat)" where
  "consume_optional p a os sep None rest =
     (if \<not> takes_value a then Inr ([(a, [])], [], 0)
      else case rest of
        (s, Arg) # rest' \<Rightarrow> Inr ([(a, [s])], [], 1)
      | _ \<Rightarrow> Inl (ExpectedOneArgument os))"
| "consume_optional p a os sep (Some []) rest =
     (if takes_value a then Inr ([(a, [[]])], [], 0)
      else Inl (IgnoredExplicitArgument []))"
| "consume_optional p a os sep (Some (c # cs)) rest =
     (if \<not> takes_value a \<and> \<not> is_long os then
        (if sep \<or> c = CHR ''-'' then Inl (IgnoredExplicitArgument (c # cs))
         else case find_option p [CHR ''-'', c] of
           Some a' \<Rightarrow>
             (case (case cs of
                      [] \<Rightarrow> consume_optional p a' [CHR ''-'', c] False None rest
                    | d # ds \<Rightarrow>
                        if d = CHR ''='' then consume_optional p a' [CHR ''-'', c] True (Some ds) rest
                        else consume_optional p a' [CHR ''-'', c] False (Some (d # ds)) rest) of
                Inl e \<Rightarrow> Inl e
              | Inr (tuples, extras, used) \<Rightarrow> Inr ((a, []) # tuples, extras, used))
         | None \<Rightarrow> Inr ([(a, [])], [CHR ''-'' # c # cs], 0))
      else if takes_value a then Inr ([(a, [c # cs])], [], 0)
      else Inl (IgnoredExplicitArgument (c # cs)))"

text \<open>The second pass: options are consumed from left to right; argument strings no option
  took are extras, reported when the end is reached.\<close>

fun consume :: "parser \<Rightarrow> (string \<times> token) list \<Rightarrow> namespace \<Rightarrow> string list \<Rightarrow> parse_result" where
  "consume p [] ns extras =
     (if extras = [] then Parsed ns else UsageError (UnrecognizedArguments extras))"
| "consume p ((s, Opt (Some a) os sep explicit_arg) # rest) ns extras =
     (case consume_optional p a os sep explicit_arg rest of
        Inl e \<Rightarrow> UsageError e
      | Inr (tuples, skipped, used) \<Rightarrow>
          (case take_actions tuples ns of
             Parsed ns' \<Rightarrow> consume p (drop used rest) ns' (extras @ skipped)
           | r \<Rightarrow> r))"
| "consume p ((s, tok) # rest) ns extras = consume p rest ns (extras @ [s])"

definition parse_args :: "parser \<Rightarrow> string list \<Rightarrow> parse_result" where
  "parse_args p argv =
     (case classify p argv of
        Inl e \<Rightarrow> UsageError e
      | Inr toks \<Rightarrow> consume p toks (initial_namespace p) [])"


section \<open>The agent scripts\<close>

text \<open>
  Each of the 16 files under \<^verbatim>\<open>agents/\<close> has one function \<^verbatim>\<open>main\<close>: it builds the parser,
  parses \<^verbatim>\<open>sys.argv\<close>, prints, and returns 0, which the file passes to \<^verbatim>\<open>sys.exit\<close>.
  For each file the model has the parser, the lines printed under \<^verbatim>\<open>if args.verbose\<close>, the
  lines printed unconditionally, the lines printed by the conditionals that follow (three
  files have some), and the body: all printed lines, one per \<^verbatim>\<open>print\<close> call, with the
  return value.
\<close>

text \<open>The UTF-8 bytes of the non-ASCII characters the scripts print.\<close>

definition WARNING_SIGN :: string where
  "WARNING_SIGN = [CHR 0xE2, CHR 0x9A, CHR 0xA0]"

definition VARIATION_SELECTOR_16 :: string where
  "VARIATION_SELECTOR_16 = [CHR 0xEF, CHR 0xB8, CHR 0x8F]"

definition LEFT_POINTING_MAGNIFYING_GLASS :: string where
  "LEFT_POINTING_MAGNIFYING_GLASS = [CHR 0xF0, CHR 0x9F, CHR 0x94, CHR 0x8D]"

definition PAGE_FACING_UP :: string where
  "PAGE_FACING_UP = [CHR 0xF0, CHR 0x9F, CHR 0x93, CHR 0x84]"

definition FRAME_WITH_PICTURE :: string where
  "FRAME_WITH_PICTURE = [CHR 0xF0, CHR 0x9F, CHR 0x96, CHR 0xBC]"

definition BAR_CHART :: string where
  "BAR_CHART = [CHR 0xF0, CHR 0x9F, CHR 0x93, CHR 0x8A]"

definition ROBOT_FACE :: string where
  "ROBOT_FACE = [CHR 0xF0, CHR 0x9F, CHR 0xA4, CHR 0x96]"

definition EARTH_GLOBE_EUROPE_AFRICA :: string where
  "EARTH_GLOBE_EUROPE_AFRICA = [CHR 0xF0, CHR 0x9F, CHR 0x8C, CHR 0x8D]"

definition BRAIN :: string where
  "BRAIN = [CHR 0xF0, CHR 0x9F, CHR 0xA7, CHR 0xA0]"

definition SMALL_BLUE_DIAMOND :: string where
  "SMALL_BLUE_DIAMOND = [CHR 0xF0, CHR 0x9F, CHR 0x94, CHR 0xB9]"

definition LARGE_BLUE_DIAMOND :: string where
  "LARGE_BLUE_DIAMOND = [CHR 0xF0, CHR 0x9F, CHR 0x94, CHR 0xB7]"

definition PACKAGE :: string where
  "PACKAGE = [CHR 0xF0, CHR 0x9F, CHR 0x93, CHR 0xA6]"

definition GLOBE_WITH_MERIDIANS :: string where
  "GLOBE_WITH_MERIDIANS = [CHR 0xF0, CHR 0x9F, CHR 0x8C, CHR 0x90]"

definition CLIPBOARD :: string where
  "CLIPBOARD = [CHR 0xF0, CHR 0x9F, CHR 0x93, CHR 0x8B]"

definition BELL :: string where
  "BELL = [CHR 0xF0, CHR 0x9F, CHR 0x94, CHR 0x94]"

definition SHOPPING_TROLLEY :: string where
  "SHOPPING_TROLLEY = [CHR 0xF0, CHR 0x9F, CHR 0x9B, CHR 0x92]"

definition BOOKS :: string where
  "BOOKS = [CHR 0xF0, CHR 0x9F, CHR 0x93, CHR 0x9A]"

definition DIRECT_HIT :: string where
  "DIRECT_HIT = [CHR 0xF0, CHR 0x9F, CHR 0x8E, CHR 0xAF]"

definition FLOPPY_DISK :: string where
  "FLOPPY_DISK = [CHR 0xF0, CHR 0x9F, CHR 0x92, CHR 0xBE]"


text \<open>\<^verbatim>\<open>args.k\<close>. Every attribute a script reads is the destination of one of its parser's
  arguments, which \<open>initial_namespace\<close> defines.\<close>

definition attr :: "namespace \<Rightarrow> string \<Rightarrow> pyval" where
  "attr args k = (case args k of Some v \<Rightarrow> v | None \<Rightarrow> PyNone)"

text \<open>\<^verbatim>\<open>os.path.splitext\<close> (POSIX): the extension starts at the last dot of the last path
  component, unless only dots precede it there.\<close>

definition splitext :: "string \<Rightarrow> string \<times> string" where
  "splitext p =
     (let base = rev (takeWhile (\<lambda>c. c \<noteq> CHR ''/'') (rev p));
          ext = rev (takeWhile (\<lambda>c. c \<noteq> CHR ''.'') (rev base));
          front = take (length base - length ext - 1) base
      in if CHR ''.'' \<in> set base \<and> filter (\<lambda>c. c \<noteq> CHR ''.'') front \<noteq> []
         then (take (length p - length ext - 1) p, CHR ''.'' # ext)
         else (p, []))"

text \<open>What a run of a script does: \<^verbatim>\<open>main\<close> ran to its \<^verbatim>\<open>return\<close> after printing lines, or
  the parser left the process before (help: status 0; usage error: status 2).\<close>

datatype run_result = Completed "string list" int | HelpPrinted | UsageFailure usage_error

fun exit_status :: "run_result \<Rightarrow> int" where
  "exit_status (Completed out rc) = rc"
| "exit_status HelpPrinted = 0"
| "exit_status (UsageFailure e) = 2"

definition run_main :: "parser \<Rightarrow> (namespace \<Rightarrow> string list \<times> int) \<Rightarrow> string list \<Rightarrow> run_result" where
  "run_main p body argv =
     (case parse_args p argv of
        Parsed args \<Rightarrow> (case body args of (out, rc) \<Rightarrow> Completed out rc)
      | HelpExit \<Rightarrow> HelpPrinted
      | UsageError e \<Rightarrow> UsageFailure e)"

subsection \<open>\<^verbatim>\<open>agents/architect_planner.py\<close>\<close>

definition architect_planner_parser :: parser where
  "architect_planner_parser = ArgumentParser [
     add_argument [''--model''] (Store AsStr (Some [''gpt-4o-mini'', ''gpt-5-mini'',
             ''gpt-5.2''])) (PyStr ''gpt-5.2''),
     store_true [''--dry-run''],
     store_true [''-v'', ''--verbose''],
     add_argument [''--project-name''] (Store AsStr None) PyNone,
     add_argument [''--requirements''] (Store AsStr None) PyNone]"

definition architect_planner_verbose :: "namespace \<Rightarrow> string list" where
  "architect_planner_verbose args =
     (if truthy (attr args ''verbose'')
       then [''[Architect Planner] Starting with model: '' @ py_str (attr args ''model'')] @
           (if truthy (attr args ''project_name'')
             then [''[Architect Planner] Project: '' @ py_str (attr args ''project_name'')]
             else [])
       else [])"

definition architect_planner_capabilities :: "string list" where
  "architect_planner_capabilities =
     [WARNING_SIGN @ VARIATION_SELECTOR_16 @ ''  Placeholder agent - implementation pending'',
      ''This agent will be refined by the CEO Agent when first used.'',
      [NL] @ ''Capabilities:'',
      ''  - System architecture design'',
      ''  - Database schema planning'',
      ''  - API design (REST/GraphQL)'',
      ''  - README creation'']"

definition architect_planner_body :: "namespace \<Rightarrow> string list \<times> int" where
  "architect_planner_body args = (architect_planner_verbose args @ architect_planner_capabilities, 0)"

subsection \<open>\<^verbatim>\<open>agents/code_executioner.py\<close>\<close>

definition code_executioner_parser :: parser where
  "code_executioner_parser = ArgumentParser [
     add_argument [''--model''] (Store AsStr (Some [''gpt-4o-mini'', ''gpt-5-mini'',
             ''gpt-5.2''])) (PyStr ''gpt-5-mini''),
     store_true [''--include-tests''],
     store_true [''--dry-run''],
     store_true [''-v'', ''--verbose''],
     add_argument [''--language''] (Store AsStr (Some [''python'', ''javascript'',
             ''typescript''])) (PyStr ''python'')]"

definition code_executioner_verbose :: "namespace \<Rightarrow> string list" where
  "code_executioner_verbose args =
     (if truthy (attr args ''verbose'')
       then [''[Code Executioner] Starting with model: '' @ py_str (attr args ''model''),
            ''[Code Executioner] Language: '' @ py_str (attr args ''language'')] @
           (if truthy (attr args ''include_tests'')
             then [''[Code Executioner] Will include tests'']
             else [])
       else [])"

definition code_executioner_capabilities :: "string list" where
  "code_executioner_capabilities =
     [WARNING_SIGN @ VARIATION_SELECTOR_16 @ ''  Placeholder agent - implementation pending'',
      ''This agent will be refined by the CEO Agent when first used.'',
      [NL] @ ''Capabilities:'',
      ''  - Code generation (Python, JS, TS)'',
      ''  - Bug fixing and debugging'',
      ''  - Test writing'',
      ''  - Code refactoring'']"

definition code_executioner_body :: "namespace \<Rightarrow> string list \<times> int" where
  "code_executioner_body args = (code_executioner_verbose args @ code_executioner_capabilities, 0)"

subsection \<open>\<^verbatim>\<open>agents/ui_ux_designer.py\<close>\<close>

definition ui_ux_designer_parser :: parser where
  "ui_ux_designer_parser = ArgumentParser [
     add_argument [''--model''] (Store AsStr (Some [''gpt-4o-mini'', ''gpt-5-mini'',
             ''gpt-5.2''])) (PyStr ''gpt-5-mini''),
     add_argument [''--brand''] (Store AsStr None) (PyStr ''SchooLinks''),
     store_true [''--dry-run''],
     store_true [''-v'', ''--verbose''],
     add_argument [''--component-type''] (Store AsStr None) PyNone]"

definition ui_ux_designer_verbose :: "namespace \<Rightarrow> string list" where
  "ui_ux_designer_verbose args =
     (if truthy (attr args ''verbose'')
       then [''[UI/UX Designer] Starting with model: '' @ py_str (attr args ''model''),
            ''[UI/UX Designer] Brand: '' @ py_str (attr args ''brand'')]
       else [])"

definition ui_ux_designer_capabilities :: "string list" where
  "ui_ux_designer_capabilities =
     [WARNING_SIGN @ VARIATION_SELECTOR_16 @ ''  Placeholder agent - implementation pending'',
      ''This agent will be refined by the CEO Agent when first used.'',
      [NL] @ ''Capabilities:'',
      ''  - UI component design'',
      ''  - CSS/Tailwind styling'',
      ''  - WCAG accessibility'',
      ''  - Brand consistency (SchooLinks #00A8E1)'']"

definition ui_ux_designer_body :: "namespace \<Rightarrow> string list \<times> int" where
  "ui_ux_designer_body args = (ui_ux_designer_verbose args @ ui_ux_designer_capabilities, 0)"

subsection \<open>\<^verbatim>\<open>agents/pdf_ocr_parser.py\<close>\<close>

definition pdf_ocr_parser_parser :: parser where
  "pdf_ocr_parser_parser = ArgumentParser [
     add_argument [''--input''] (Store AsStr None) PyNone,
     add_argument [''--input-dir''] (Store AsStr None) PyNone,
     add_argument [''--url''] (Store AsStr None) PyNone,
     add_argument [''--ocr-engine''] (Store AsStr (Some [''tesseract'', ''vision'',
             ''hybrid''])) (PyStr ''tesseract''),
     add_argument [''--language''] (Store AsStr None) (PyStr ''eng''),
     add_argument [''--dpi''] (Store AsInt None) (PyInt 300),
     store_true [''--extract-tables''],
     store_true [''--extract-forms''],
     store_true [''--extract-images''],
     store_true [''--extract-metadata''],
     store_true [''--ai-reasoning''],
     store_true [''--extract-entities''],
     store_true [''--classify''],
     store_true [''--summarize''],
     add_argument [''--model''] (Store AsStr (Some [''gpt-4o-mini'', ''gpt-5-mini'',
             ''gpt-5.2''])) (PyStr ''gpt-5-mini''),
     add_argument [''--output''] (Store AsStr None) PyNone,
     add_argument [''--output-dir''] (Store AsStr None) PyNone,
     add_argument [''--output-format''] (Store AsStr (Some [''json'', ''markdown'', ''csv'',
             ''text''])) (PyStr ''json''),
     store_true [''--dry-run''],
     store_true [''-v'', ''--verbose''],
     add_argument [''--quality''] (Store AsStr (Some [''fast'', ''standard'',
             ''high''])) (PyStr ''standard'')]"

definition pdf_ocr_parser_verbose :: "namespace \<Rightarrow> string list" where
  "pdf_ocr_parser_verbose args =
     (if truthy (attr args ''verbose'')
       then [''[PDF/OCR Parser] Starting with model: '' @ py_str (attr args ''model''),
            ''[PDF/OCR Parser] OCR Engine: '' @ py_str (attr args ''ocr_engine''),
            ''[PDF/OCR Parser] Output Format: '' @ py_str (attr args ''output_format'')] @
           (if truthy (attr args ''input'')
             then [''[PDF/OCR Parser] Input: '' @ py_str (attr args ''input'')]
             else []) @
           (if truthy (attr args ''ai_reasoning'')
             then [''[PDF/OCR Parser] AI Reasoning: ENABLED'']
             else []) @
           (if truthy (attr args ''extract_tables'')
             then [''[PDF/OCR Parser] Table Extraction: ENABLED'']
             else [])
       else [])"

definition pdf_ocr_parser_capabilities :: "string list" where
  "pdf_ocr_parser_capabilities =
     [WARNING_SIGN @ VARIATION_SELECTOR_16 @ ''  Placeholder agent - implementation pending'',
      ''This agent will be refined by the CEO Agent when first used.'',
      [NL] @ LEFT_POINTING_MAGNIFYING_GLASS @ '' Capabilities:'',
      [NL] @ ''  '' @ PAGE_FACING_UP @ '' PDF Processing:'',
      ''    - Native text extraction (searchable PDFs)'',
      ''    - Scanned document OCR'',
      ''    - Multi-page processing'',
      ''    - Page-by-page analysis'',
      [NL] @ ''  '' @ FRAME_WITH_PICTURE @ VARIATION_SELECTOR_16 @ ''  Image Processing:'',
      ''    - OCR on JPG, PNG, TIFF, BMP'',
      ''    - Handwritten text recognition'',
      ''    - Complex layout handling'',
      ''    - Multi-page TIFF support'',
      [NL] @ ''  '' @ BAR_CHART @ '' Structured Data:'',
      ''    - Table extraction and CSV export'',
      ''    - Form field detection'',
      ''    - Checkbox and radio button detection'',
      ''    - Signature detection'',
      [NL] @ ''  '' @ ROBOT_FACE @ '' AI Reasoning:'',
      ''    - Content understanding and analysis'',
      ''    - Entity extraction (NER)'',
      ''    - Document classification'',
      ''    - Content summarization'',
      ''    - Key information extraction'',
      ''    - Sentiment analysis'',
      [NL] @ ''  '' @ EARTH_GLOBE_EUROPE_AFRICA @ '' Advanced Features:'',
      ''    - 100+ language support'',
      ''    - Batch processing'',
      ''    - Quality optimization'',
      ''    - Error recovery'',
      ''    - Progress tracking'']"

definition pdf_ocr_parser_actions :: "namespace \<Rightarrow> string list" where
  "pdf_ocr_parser_actions args =
     (if truthy (attr args ''input'')
       then (let ext = lower (snd (splitext (py_str (attr args ''input''))))
            in (if ext = ''.pdf''
                then [[NL] @ PAGE_FACING_UP @ '' Would process PDF: '' @ py_str (attr args ''input'')] @
                    (if attr args ''ocr_engine'' = PyStr ''vision''
                      then [''   Using OpenAI Vision API for best quality'']
                      else [])
                else if ext \<in> set [''.jpg'', ''.jpeg'', ''.png'', ''.tiff'', ''.bmp'']
                 then [[NL] @ FRAME_WITH_PICTURE @ VARIATION_SELECTOR_16 @ ''  Would process image: '' @ py_str (attr args ''input''),
                      ''   OCR Language: '' @ py_str (attr args ''language'')]
                 else [[NL] @ WARNING_SIGN @ VARIATION_SELECTOR_16 @ ''  Unknown file type: '' @ ext]))
       else []) @
     (if truthy (attr args ''ai_reasoning'')
       then [[NL] @ BRAIN @ '' AI Analysis would include:'',
            ''   - Document type classification'',
            ''   - Key entity extraction'',
            ''   - Content structuring''] @
           (if truthy (attr args ''summarize'')
             then [''   - Executive summary generation'']
             else [])
       else []) @
     (if truthy (attr args ''extract_tables'')
       then [[NL] @ BAR_CHART @ '' Table extraction would:'',
            ''   - Detect table boundaries'',
            ''   - Extract rows and columns'',
            ''   - Export to CSV/JSON'']
       else [])"

definition pdf_ocr_parser_body :: "namespace \<Rightarrow> string list \<times> int" where
  "pdf_ocr_parser_body args = (pdf_ocr_parser_verbose args @ pdf_ocr_parser_capabilities @ pdf_ocr_parser_actions args, 0)"

subsection \<open>\<^verbatim>\<open>agents/research_scientist.py\<close>\<close>

definition research_scientist_parser :: parser where
  "research_scientist_parser = ArgumentParser [
     add_argument [''--model''] (Store AsStr (Some [''gpt-4o-mini'', ''gpt-5-mini'',
             ''gpt-5.2''])) (PyStr ''gpt-5.2''),
     add_argument [''--topic''] (Store AsStr None) PyNone,
     store_true [''--dry-run''],
     store_true [''-v'', ''--verbose'']]"

definition research_scientist_verbose :: "namespace \<Rightarrow> string list" where
  "research_scientist_verbose args =
     (if truthy (attr args ''verbose'')
       then [''[Research Scientist] Starting with model: '' @ py_str (attr args ''model'')] @
           (if truthy (attr args ''topic'')
             then [''[Research Scientist] Topic: '' @ py_str (attr args ''topic'')]
             else [])
       else [])"

definition research_scientist_capabilities :: "string list" where
  "research_scientist_capabilities =
     [WARNING_SIGN @ VARIATION_SELECTOR_16 @ ''  Placeholder agent - implementation pending'',
      ''This agent will be refined by the CEO Agent when first used.'',
      [NL] @ ''Capabilities:'',
      ''  - Technology research'',
      ''  - Code review'',
      ''  - Best practices analysis'',
      ''  - Emerging tech assessment'']"

definition research_scientist_body :: "namespace \<Rightarrow> string list \<times> int" where
  "research_scientist_body args = (research_scientist_verbose args @ research_scientist_capabilities, 0)"

subsection \<open>\<^verbatim>\<open>agents/google_api_specialist.py\<close>\<close>

definition google_api_specialist_parser :: parser where
  "google_api_specialist_parser = ArgumentParser [
     add_argument [''--model''] (Store AsStr (Some [''gpt-4o-mini'', ''gpt-5-mini'',
             ''gpt-5.2''])) (PyStr ''gpt-4o-mini''),
     add_argument [''--service''] (Store AsStr (Some [''drive'', ''sheets'', ''calendar'',
             ''oauth''])) PyNone,
     store_true [''--dry-run''],
     store_true [''-v'', ''--verbose'']]"

definition google_api_specialist_verbose :: "namespace \<Rightarrow> string list" where
  "google_api_specialist_verbose args =
     (if truthy (attr args ''verbose'')
       then [''[Google API Specialist] Starting with model: '' @ py_str (attr args ''model'')] @
           (if truthy (attr args ''service'')
             then [''[Google API Specialist] Service: '' @ py_str (attr args ''service'')]
             else [])
       else [])"

definition google_api_specialist_capabilities :: "string list" where
  "google_api_specialist_capabilities =
     [WARNING_SIGN @ VARIATION_SELECTOR_16 @ ''  Placeholder agent - implementation pending'',
      ''This agent will be refined by the CEO Agent when first used.'',
      [NL] @ ''Capabilities:'',
      ''  - Google Drive integration'',
      ''  - Google Sheets integration'',
      ''  - Google Calendar integration'',
      ''  - OAuth 2.0 setup'']"

definition google_api_specialist_body :: "namespace \<Rightarrow> string list \<times> int" where
  "google_api_specialist_body args = (google_api_specialist_verbose args @ google_api_specialist_capabilities, 0)"

subsection \<open>\<^verbatim>\<open>agents/meta_api_specialist.py\<close>\<close>

definition meta_api_specialist_parser :: parser where
  "meta_api_specialist_parser = ArgumentParser [
     add_argument [''--model''] (Store AsStr (Some [''gpt-4o-mini'', ''gpt-5-mini'',
             ''gpt-5.2''])) (PyStr ''gpt-4o-mini''),
     add_argument [''--platform''] (Store AsStr (Some [''facebook'', ''instagram'',
             ''both''])) PyNone,
     store_true [''--dry-run''],
     store_true [''-v'', ''--verbose'']]"

definition meta_api_specialist_verbose :: "namespace \<Rightarrow> string list" where
  "meta_api_specialist_verbose args =
     (if truthy (attr args ''verbose'')
       then [''[Meta API Specialist] Starting with model: '' @ py_str (attr args ''model'')] @
           (if truthy (attr args ''platform'')
             then [''[Meta API Specialist] Platform: '' @ py_str (attr args ''platform'')]
             else [])
       else [])"

definition meta_api_specialist_capabilities :: "string list" where
  "meta_api_specialist_capabilities =
     [WARNING_SIGN @ VARIATION_SELECTOR_16 @ ''  Placeholder agent - implementation pending'',
      ''This agent will be refined by the CEO Agent when first used.'',
      [NL] @ ''Capabilities:'',
      ''  - Facebook Ads management'',
      ''  - Instagram integration'',
      ''  - Audience targeting'',
      ''  - Ad analytics'']"

definition meta_api_specialist_body :: "namespace \<Rightarrow> string list \<times> int" where
  "meta_api_specialist_body args = (meta_api_specialist_verbose args @ meta_api_specialist_capabilities, 0)"

subsection \<open>\<^verbatim>\<open>agents/groundtruth_api_specialist.py\<close>\<close>

definition groundtruth_api_specialist_parser :: parser where
  "groundtruth_api_specialist_parser = ArgumentParser [
     add_argument [''--model''] (Store AsStr (Some [''gpt-4o-mini'', ''gpt-5-mini'',
             ''gpt-5.2''])) (PyStr ''gpt-4o-mini''),
     add_argument [''--action''] (Store AsStr (Some [''sync'', ''report'',
             ''validate''])) PyNone,
     store_true [''--dry-run''],
     store_true [''-v'', ''--verbose'']]"

definition groundtruth_api_specialist_verbose :: "namespace \<Rightarrow> string list" where
  "groundtruth_api_specialist_verbose args =
     (if truthy (attr args ''verbose'')
       then [''[Ground Truth API Specialist] Starting with model: '' @ py_str (attr args ''model'')] @
           (if truthy (attr args ''action'')
             then [''[Ground Truth API Specialist] Action: '' @ py_str (attr args ''action'')]
             else [])
       else [])"

definition groundtruth_api_specialist_capabilities :: "string list" where
  "groundtruth_api_specialist_capabilities =
     [WARNING_SIGN @ VARIATION_SELECTOR_16 @ ''  Placeholder agent - implementation pending'',
      ''This agent will be refined by the CEO Agent when first used.'',
      [NL] @ ''Capabilities:'',
      ''  - Student data sync'',
      ''  - Academic reporting'',
      ''  - FERPA compliance validation'',
      ''  - Educational data integration'']"

definition groundtruth_api_specialist_body :: "namespace \<Rightarrow> string list \<times> int" where
  "groundtruth_api_specialist_body args = (groundtruth_api_specialist_verbose args @ groundtruth_api_specialist_capabilities, 0)"

subsection \<open>\<^verbatim>\<open>agents/hubspot_api_specialist.py\<close>\<close>

definition hubspot_api_specialist_parser :: parser where
  "hubspot_api_specialist_parser = ArgumentParser [
     add_argument [''--model''] (Store AsStr (Some [''gpt-4o-mini'', ''gpt-5-mini'',
             ''gpt-5.2''])) (PyStr ''gpt-4o-mini''),
     add_argument [''--api-type''] (Store AsStr (Some [''crm'', ''marketing'', ''content'',
             ''analytics''])) PyNone,
     add_argument [''--auth-method''] (Store AsStr (Some [''private-app'', ''oauth'',
             ''api-key''])) (PyStr ''private-app''),
     add_argument [''--action''] (Store AsStr (Some [''sync'', ''extract'',
             ''create-campaign'', ''manage-workflow'', ''report''])) PyNone,
     add_argument [''--entity''] (Store AsStr (Some [''contacts'', ''companies'', ''deals'',
             ''emails'', ''forms''])) PyNone,
     add_argument [''--url''] (Store AsStr None) PyNone,
     add_argument [''--template''] (Store AsStr None) PyNone,
     store_true [''--dry-run''],
     store_true [''-v'', ''--verbose'']]"

definition hubspot_api_specialist_verbose :: "namespace \<Rightarrow> string list" where
  "hubspot_api_specialist_verbose args =
     (if truthy (attr args ''verbose'')
       then [''[HubSpot API Specialist] Starting with model: '' @ py_str (attr args ''model'')] @
           (if truthy (attr args ''api_type'')
             then [''[HubSpot API Specialist] API Type: '' @ py_str (attr args ''api_type'')]
             else []) @
           (if truthy (attr args ''action'')
             then [''[HubSpot API Specialist] Action: '' @ py_str (attr args ''action'')]
             else []) @
           (if truthy (attr args ''auth_method'')
             then [''[HubSpot API Specialist] Auth: '' @ py_str (attr args ''auth_method'')]
             else [])
       else [])"

definition hubspot_api_specialist_capabilities :: "string list" where
  "hubspot_api_specialist_capabilities =
     [WARNING_SIGN @ VARIATION_SELECTOR_16 @ ''  Placeholder agent - implementation pending'',
      ''This agent will be refined by the CEO Agent when first used.'',
      [NL] @ ''Capabilities:'',
      ''  '' @ SMALL_BLUE_DIAMOND @ '' CRM:'',
      ''    - Contact/company management'',
      ''    - Deal pipeline automation'',
      ''  '' @ SMALL_BLUE_DIAMOND @ '' Marketing:'',
      ''    - Email campaigns'',
      ''    - Landing pages'',
      ''    - Blog posts'',
      ''    - Forms'',
      ''    - Workflow automation'',
      ''  '' @ SMALL_BLUE_DIAMOND @ '' Content:'',
      ''    - HubSpot PDF extraction'',
      ''    - Web page content extraction'',
      ''    - Content enrichment'',
      ''  '' @ SMALL_BLUE_DIAMOND @ '' Analytics:'',
      ''    - Reporting and insights'']"

definition hubspot_api_specialist_actions :: "namespace \<Rightarrow> string list" where
  "hubspot_api_specialist_actions args =
     (if truthy (attr args ''url'') \<and> contains (py_str (attr args ''url'')) ''hubspot''
       then [[NL] @ PAGE_FACING_UP @ '' Would extract content from: '' @ py_str (attr args ''url'')] @
           (if contains (lower (py_str (attr args ''url''))) ''.pdf''
             then [''   Type: HubSpot PDF (used in marketing portal enrichment)'']
             else [])
       else [])"

definition hubspot_api_specialist_body :: "namespace \<Rightarrow> string list \<times> int" where
  "hubspot_api_specialist_body args = (hubspot_api_specialist_verbose args @ hubspot_api_specialist_capabilities @ hubspot_api_specialist_actions args, 0)"

subsection \<open>\<^verbatim>\<open>agents/webflow_api_specialist.py\<close>\<close>

definition webflow_api_specialist_parser :: parser where
  "webflow_api_specialist_parser = ArgumentParser [
     add_argument [''--api-token''] (Store AsStr None) PyNone,
     add_argument [''--site-id''] (Store AsStr None) PyNone,
     add_argument [''--api-type''] (Store AsStr (Some [''cms'', ''sites'', ''pages'',
             ''assets'', ''forms'', ''ecommerce'', ''webhooks''])) (PyStr ''cms''),
     add_argument [''--action''] (Store AsStr (Some [''list-collections'',
             ''get-collection'', ''create-collection'', ''list-items'', ''get-item'',
             ''create-item'', ''update-item'', ''delete-item'', ''publish-site'',
             ''get-site-info'', ''import-items'', ''export-items'', ''sync-landing-pages'',
             ''sync-resources'', ''setup-webhook'', ''list-webhooks'', ''delete-webhook'',
             ''upload-asset'', ''list-assets'', ''list-forms'', ''get-submissions''])) PyNone,
     add_argument [''--collection-id''] (Store AsStr None) PyNone,
     add_argument [''--item-id''] (Store AsStr None) PyNone,
     add_argument [''--fields''] (Store AsStr None) PyNone,
     add_argument [''--limit''] (Store AsInt None) (PyInt 100),
     add_argument [''--offset''] (Store AsInt None) (PyInt 0),
     add_argument [''--webhook-url''] (Store AsStr None) PyNone,
     add_argument [''--trigger-type''] (Store AsStr (Some [''collection_item_created'',
             ''collection_item_changed'', ''collection_item_deleted'',
             ''site_publish''])) PyNone,
     add_argument [''--types''] (Store AsStr None) PyNone,
     add_argument [''--db-table''] (Store AsStr None) PyNone,
     store_true [''--include-unpublished''],
     add_argument [''--output''] (Store AsStr None) PyNone,
     add_argument [''--output-format''] (Store AsStr (Some [''json'', ''csv'',
             ''markdown''])) (PyStr ''json''),
     add_argument [''--model''] (Store AsStr (Some [''gpt-4o-mini'', ''gpt-5-mini'',
             ''gpt-5.2''])) (PyStr ''gpt-4o-mini''),
     store_true [''--enrich''],
     store_true [''--dry-run''],
     store_true [''-v'', ''--verbose'']]"

definition webflow_api_specialist_verbose :: "namespace \<Rightarrow> string list" where
  "webflow_api_specialist_verbose args =
     (if truthy (attr args ''verbose'')
       then [''[Webflow API Specialist] Starting with model: '' @ py_str (attr args ''model''),
            ''[Webflow API Specialist] API Type: '' @ py_str (attr args ''api_type'')] @
           (if truthy (attr args ''action'')
             then [''[Webflow API Specialist] Action: '' @ py_str (attr args ''action'')]
             else []) @
           (if truthy (attr args ''site_id'')
             then [''[Webflow API Specialist] Site ID: '' @ py_str (attr args ''site_id'')]
             else []) @
           (if truthy (attr args ''collection_id'')
             then [''[Webflow API Specialist] Collection ID: '' @ py_str (attr args ''collection_id'')]
             else [])
       else [])"

definition webflow_api_specialist_capabilities :: "string list" where
  "webflow_api_specialist_capabilities =
     [WARNING_SIGN @ VARIATION_SELECTOR_16 @ ''  Placeholder agent - implementation pending'',
      ''This agent will be refined by the CEO Agent when first used.'',
      [NL] @ LARGE_BLUE_DIAMOND @ '' Webflow Capabilities:'',
      [NL] @ ''  '' @ PACKAGE @ '' CMS Collections & Items:'',
      ''    - List/create/update/delete collections'',
      ''    - CRUD operations on CMS items'',
      ''    - Bulk import/export'',
      ''    - Field mapping and validation'',
      [NL] @ ''  '' @ GLOBE_WITH_MERIDIANS @ '' Site Management:'',
      ''    - Site info and settings'',
      ''    - Publishing and deployment'',
      ''    - Domain management'',
      ''    - Custom code injection'',
      [NL] @ ''  '' @ PAGE_FACING_UP @ '' Pages & Assets:'',
      ''    - Page CRUD operations'',
      ''    - Asset upload and management'',
      ''    - Image optimization'',
      ''    - File organization'',
      [NL] @ ''  '' @ CLIPBOARD @ '' Forms & Submissions:'',
      ''    - Form listing'',
      ''    - Submission retrieval'',
      ''    - Export to CSV/database'',
      [NL] @ ''  '' @ BELL @ '' Webhooks:'',
      ''    - Real-time event notifications'',
      ''    - Automatic content sync'',
      ''    - Trigger-based automation'',
      [NL] @ ''  '' @ SHOPPING_TROLLEY @ '' E-commerce (if applicable):'',
      ''    - Product management'',
      ''    - Order processing'',
      ''    - Inventory tracking'',
      [NL] @ ''  '' @ BOOKS @ '' Marketing Portal Use Cases:'',
      ''    - Import resources (blog, video, webinar, ebook)'',
      ''    - Sync landing pages to database'',
      ''    - Real-time webhook updates'',
      ''    - Content type mapping'',
      ''    - Automatic enrichment'']"

definition webflow_api_specialist_actions :: "namespace \<Rightarrow> string list" where
  "webflow_api_specialist_actions args =
     (if truthy (attr args ''action'')
       then [[NL] @ DIRECT_HIT @ '' Would perform action: '' @ py_str (attr args ''action'')] @
           (if attr args ''action'' = PyStr ''import-items'' \<and> truthy (attr args ''collection_id'')
             then [''   Collection: '' @ py_str (attr args ''collection_id''),
                  ''   Limit: '' @ py_str (attr args ''limit'')] @
                 (if truthy (attr args ''enrich'')
                   then [''   AI Enrichment: ENABLED'']
                   else [])
             else if attr args ''action'' = PyStr ''sync-landing-pages''
              then [''   Would sync published landing pages''] @
                  (if truthy (attr args ''db_table'')
                    then [''   Target table: '' @ py_str (attr args ''db_table'')]
                    else [])
              else if attr args ''action'' = PyStr ''setup-webhook'' \<and> truthy (attr args ''webhook_url'')
               then [''   Webhook URL: '' @ py_str (attr args ''webhook_url'')] @
                   (if truthy (attr args ''trigger_type'')
                     then [''   Trigger: '' @ py_str (attr args ''trigger_type'')]
                     else [])
               else if attr args ''action'' = PyStr ''sync-resources''
                then [''   Would sync all marketing resources''] @
                    (if truthy (attr args ''types'')
                      then [''   Types: '' @ py_str (attr args ''types'')]
                      else [])
                else [])
       else []) @
     (if truthy (attr args ''output'')
       then [[NL] @ FLOPPY_DISK @ '' Output: '' @ py_str (attr args ''output'') @ '' ('' @ py_str (attr args ''output_format'') @ '')'']
       else [])"

definition webflow_api_specialist_body :: "namespace \<Rightarrow> string list \<times> int" where
  "webflow_api_specialist_body args = (webflow_api_specialist_verbose args @ webflow_api_specialist_capabilities @ webflow_api_specialist_actions args, 0)"

subsection \<open>\<^verbatim>\<open>agents/database_architect.py\<close>\<close>

definition database_architect_parser :: parser where
  "database_architect_parser = ArgumentParser [
     add_argument [''--model''] (Store AsStr (Some [''gpt-4o-mini'', ''gpt-5-mini'',
             ''gpt-5.2''])) (PyStr ''gpt-5-mini''),
     add_argument [''--action''] (Store AsStr (Some [''schema'', ''migration'',
             ''optimize''])) PyNone,
     store_true [''--dry-run''],
     store_true [''-v'', ''--verbose'']]"

definition database_architect_verbose :: "namespace \<Rightarrow> string list" where
  "database_architect_verbose args =
     (if truthy (attr args ''verbose'')
       then [''[Database Architect] Starting with model: '' @ py_str (attr args ''model'')] @
           (if truthy (attr args ''action'')
             then [''[Database Architect] Action: '' @ py_str (attr args ''action'')]
             else [])
       else [])"

definition database_architect_capabilities :: "string list" where
  "database_architect_capabilities =
     [WARNING_SIGN @ VARIATION_SELECTOR_16 @ ''  Placeholder agent - implementation pending'',
      ''This agent will be refined by the CEO Agent when first used.'',
      [NL] @ ''Capabilities:'',
      ''  - PostgreSQL schema design'',
      ''  - Supabase integration'',
      ''  - Migration creation'',
      ''  - Query optimization'']"

definition database_architect_body :: "namespace \<Rightarrow> string list \<times> int" where
  "database_architect_body args = (database_architect_verbose args @ database_architect_capabilities, 0)"

subsection \<open>\<^verbatim>\<open>agents/deployment_engineer.py\<close>\<close>

definition deployment_engineer_parser :: parser where
  "deployment_engineer_parser = ArgumentParser [
     add_argument [''--model''] (Store AsStr (Some [''gpt-4o-mini'', ''gpt-5-mini'',
             ''gpt-5.2''])) (PyStr ''gpt-4o-mini''),
     add_argument [''--platform''] (Store AsStr (Some [''vercel'', ''github-actions'',
             ''env-config''])) PyNone,
     store_true [''--dry-run''],
     store_true [''-v'', ''--verbose'']]"

definition deployment_engineer_verbose :: "namespace \<Rightarrow> string list" where
  "deployment_engineer_verbose args =
     (if truthy (attr args ''verbose'')
       then [''[Deployment Engineer] Starting with model: '' @ py_str (attr args ''model'')] @
           (if truthy (attr args ''platform'')
             then [''[Deployment Engineer] Platform: '' @ py_str (attr args ''platform'')]
             else [])
       else [])"

definition deployment_engineer_capabilities :: "string list" where
  "deployment_engineer_capabilities =
     [WARNING_SIGN @ VARIATION_SELECTOR_16 @ ''  Placeholder agent - implementation pending'',
      ''This agent will be refined by the CEO Agent when first used.'',
      [NL] @ ''Capabilities:'',
      ''  - Vercel deployment'',
      ''  - GitHub Actions workflows'',
      ''  - Environment config'',
      ''  - CI/CD pipeline setup'']"

definition deployment_engineer_body :: "namespace \<Rightarrow> string list \<times> int" where
  "deployment_engineer_body args = (deployment_engineer_verbose args @ deployment_engineer_capabilities, 0)"

subsection \<open>\<^verbatim>\<open>agents/qa_tester.py\<close>\<close>

definition qa_tester_parser :: parser where
  "qa_tester_parser = ArgumentParser [
     add_argument [''--model''] (Store AsStr (Some [''gpt-4o-mini'', ''gpt-5-mini'',
             ''gpt-5.2''])) (PyStr ''gpt-4o-mini''),
     add_argument [''--test-type''] (Store AsStr (Some [''unit'', ''integration'',
             ''e2e''])) PyNone,
     store_true [''--dry-run''],
     store_true [''-v'', ''--verbose'']]"

definition qa_tester_verbose :: "namespace \<Rightarrow> string list" where
  "qa_tester_verbose args =
     (if truthy (attr args ''verbose'')
       then [''[QA Tester] Starting with model: '' @ py_str (attr args ''model'')] @
           (if truthy (attr args ''test_type'')
             then [''[QA Tester] Test type: '' @ py_str (attr args ''test_type'')]
             else [])
       else [])"

definition qa_tester_capabilities :: "string list" where
  "qa_tester_capabilities =
     [WARNING_SIGN @ VARIATION_SELECTOR_16 @ ''  Placeholder agent - implementation pending'',
      ''This agent will be refined by the CEO Agent when first used.'',
      [NL] @ ''Capabilities:'',
      ''  - Unit testing'',
      ''  - Integration testing'',
      ''  - E2E testing'',
      ''  - Bug verification'']"

definition qa_tester_body :: "namespace \<Rightarrow> string list \<times> int" where
  "qa_tester_body args = (qa_tester_verbose args @ qa_tester_capabilities, 0)"

subsection \<open>\<^verbatim>\<open>agents/technical_writer.py\<close>\<close>

definition technical_writer_parser :: parser where
  "technical_writer_parser = ArgumentParser [
     add_argument [''--model''] (Store AsStr (Some [''gpt-4o-mini'', ''gpt-5-mini'',
             ''gpt-5.2''])) (PyStr ''gpt-4o-mini''),
     add_argument [''--doc-type''] (Store AsStr (Some [''api'', ''user-guide'', ''readme'',
             ''comments''])) PyNone,
     store_true [''--dry-run''],
     store_true [''-v'', ''--verbose'']]"

definition technical_writer_verbose :: "namespace \<Rightarrow> string list" where
  "technical_writer_verbose args =
     (if truthy (attr args ''verbose'')
       then [''[Technical Writer] Starting with model: '' @ py_str (attr args ''model'')] @
           (if truthy (attr args ''doc_type'')
             then [''[Technical Writer] Doc type: '' @ py_str (attr args ''doc_type'')]
             else [])
       else [])"

definition technical_writer_capabilities :: "string list" where
  "technical_writer_capabilities =
     [WARNING_SIGN @ VARIATION_SELECTOR_16 @ ''  Placeholder agent - implementation pending'',
      ''This agent will be refined by the CEO Agent when first used.'',
      [NL] @ ''Capabilities:'',
      ''  - API documentation'',
      ''  - User guides'',
      ''  - README creation'',
      ''  - Code comments'']"

definition technical_writer_body :: "namespace \<Rightarrow> string list \<times> int" where
  "technical_writer_body args = (technical_writer_verbose args @ technical_writer_capabilities, 0)"

subsection \<open>\<^verbatim>\<open>agents/security_auditor.py\<close>\<close>

definition security_auditor_parser :: parser where
  "security_auditor_parser = ArgumentParser [
     add_argument [''--model''] (Store AsStr (Some [''gpt-4o-mini'', ''gpt-5-mini'',
             ''gpt-5.2''])) (PyStr ''gpt-5-mini''),
     add_argument [''--audit-type''] (Store AsStr (Some [''auth'', ''data'', ''owasp'',
             ''full''])) PyNone,
     store_true [''--dry-run''],
     store_true [''-v'', ''--verbose'']]"

definition security_auditor_verbose :: "namespace \<Rightarrow> string list" where
  "security_auditor_verbose args =
     (if truthy (attr args ''verbose'')
       then [''[Security Auditor] Starting with model: '' @ py_str (attr args ''model'')] @
           (if truthy (attr args ''audit_type'')
             then [''[Security Auditor] Audit type: '' @ py_str (attr args ''audit_type'')]
             else [])
       else [])"

definition security_auditor_capabilities :: "string list" where
  "security_auditor_capabilities =
     [WARNING_SIGN @ VARIATION_SELECTOR_16 @ ''  Placeholder agent - implementation pending'',
      ''This agent will be refined by the CEO Agent when first used.'',
      [NL] @ ''Capabilities:'',
      ''  - Vulnerability scanning'',
      ''  - Auth validation'',
      ''  - Data security audit'',
      ''  - OWASP compliance'']"

definition security_auditor_body :: "namespace \<Rightarrow> string list \<times> int" where
  "security_auditor_body args = (security_auditor_verbose args @ security_auditor_capabilities, 0)"

subsection \<open>\<^verbatim>\<open>agents/performance_optimizer.py\<close>\<close>

definition performance_optimizer_parser :: parser where
  "performance_optimizer_parser = ArgumentParser [
     add_argument [''--model''] (Store AsStr (Some [''gpt-4o-mini'', ''gpt-5-mini'',
             ''gpt-5.2''])) (PyStr ''gpt-5-mini''),
     add_argument [''--target''] (Store AsStr (Some [''frontend'', ''backend'', ''database'',
             ''all''])) PyNone,
     store_true [''--dry-run''],
     store_true [''-v'', ''--verbose'']]"

definition performance_optimizer_verbose :: "namespace \<Rightarrow> string list" where
  "performance_optimizer_verbose args =
     (if truthy (attr args ''verbose'')
       then [''[Performance Optimizer] Starting with model: '' @ py_str (attr args ''model'')] @
           (if truthy (attr args ''target'')
             then [''[Performance Optimizer] Target: '' @ py_str (attr args ''target'')]
             else [])
       else [])"

definition performance_optimizer_capabilities :: "string list" where
  "performance_optimizer_capabilities =
     [WARNING_SIGN @ VARIATION_SELECTOR_16 @ ''  Placeholder agent - implementation pending'',
      ''This agent will be refined by the CEO Agent when first used.'',
      [NL] @ ''Capabilities:'',
      ''  - Frontend optimization'',
      ''  - Backend optimization'',
      ''  - Query optimization'',
      ''  - Lighthouse improvements'']"

definition performance_optimizer_body :: "namespace \<Rightarrow> string list \<times> int" where
  "performance_optimizer_body args = (performance_optimizer_verbose args @ performance_optimizer_capabilities, 0)"

subsection \<open>The fleet\<close>

datatype agent_script =
    Script_architect_planner
  | Script_code_executioner
  | Script_ui_ux_designer
  | Script_pdf_ocr_parser
  | Script_research_scientist
  | Script_google_api_specialist
  | Script_meta_api_specialist
  | Script_groundtruth_api_specialist
  | Script_hubspot_api_specialist
  | Script_webflow_api_specialist
  | Script_database_architect
  | Script_deployment_engineer
  | Script_qa_tester
  | Script_technical_writer
  | Script_security_auditor
  | Script_performance_optimizer

definition agent_fleet :: "agent_script list" where
  "agent_fleet =
     [Script_architect_planner,
      Script_code_executioner,
      Script_ui_ux_designer,
      Script_pdf_ocr_parser,
      Script_research_scientist,
      Script_google_api_specialist,
      Script_meta_api_specialist,
      Script_groundtruth_api_specialist,
      Script_hubspot_api_specialist,
      Script_webflow_api_specialist,
      Script_database_architect,
      Script_deployment_engineer,
      Script_qa_tester,
      Script_technical_writer,
      Script_security_auditor,
      Script_performance_optimizer]"

fun script_parser :: "agent_script \<Rightarrow> parser" where
  "script_parser Script_architect_planner = architect_planner_parser"
| "script_parser Script_code_executioner = code_executioner_parser"
| "script_parser Script_ui_ux_designer = ui_ux_designer_parser"
| "script_parser Script_pdf_ocr_parser = pdf_ocr_parser_parser"
| "script_parser Script_research_scientist = research_scientist_parser"
| "script_parser Script_google_api_specialist = google_api_specialist_parser"
| "script_parser Script_meta_api_specialist = meta_api_specialist_parser"
| "script_parser Script_groundtruth_api_specialist = groundtruth_api_specialist_parser"
| "script_parser Script_hubspot_api_specialist = hubspot_api_specialist_parser"
| "script_parser Script_webflow_api_specialist = webflow_api_specialist_parser"
| "script_parser Script_database_architect = database_architect_parser"
| "script_parser Script_deployment_engineer = deployment_engineer_parser"
| "script_parser Script_qa_tester = qa_tester_parser"
| "script_parser Script_technical_writer = technical_writer_parser"
| "script_parser Script_security_auditor = security_auditor_parser"
| "script_parser Script_performance_optimizer = performance_optimizer_parser"

fun script_verbose :: "agent_script \<Rightarrow> namespace \<Rightarrow> string list" where
  "script_verbose Script_architect_planner args = architect_planner_verbose args"
| "script_verbose Script_code_executioner args = code_executioner_verbose args"
| "script_verbose Script_ui_ux_designer args = ui_ux_designer_verbose args"
| "script_verbose Script_pdf_ocr_parser args = pdf_ocr_parser_verbose args"
| "script_verbose Script_research_scientist args = research_scientist_verbose args"
| "script_verbose Script_google_api_specialist args = google_api_specialist_verbose args"
| "script_verbose Script_meta_api_specialist args = meta_api_specialist_verbose args"
| "script_verbose Script_groundtruth_api_specialist args = groundtruth_api_specialist_verbose args"
| "script_verbose Script_hubspot_api_specialist args = hubspot_api_specialist_verbose args"
| "script_verbose Script_webflow_api_specialist args = webflow_api_specialist_verbose args"
| "script_verbose Script_database_architect args = database_architect_verbose args"
| "script_verbose Script_deployment_engineer args = deployment_engineer_verbose args"
| "script_verbose Script_qa_tester args = qa_tester_verbose args"
| "script_verbose Script_technical_writer args = technical_writer_verbose args"
| "script_verbose Script_security_auditor args = security_auditor_verbose args"
| "script_verbose Script_performance_optimizer args = performance_optimizer_verbose args"

fun script_capabilities :: "agent_script \<Rightarrow> string list" where
  "script_capabilities Script_architect_planner = architect_planner_capabilities"
| "script_capabilities Script_code_executioner = code_executioner_capabilities"
| "script_capabilities Script_ui_ux_designer = ui_ux_designer_capabilities"
| "script_capabilities Script_pdf_ocr_parser = pdf_ocr_parser_capabilities"
| "script_capabilities Script_research_scientist = research_scientist_capabilities"
| "script_capabilities Script_google_api_specialist = google_api_specialist_capabilities"
| "script_capabilities Script_meta_api_specialist = meta_api_specialist_capabilities"
| "script_capabilities Script_groundtruth_api_specialist = groundtruth_api_specialist_capabilities"
| "script_capabilities Script_hubspot_api_specialist = hubspot_api_specialist_capabilities"
| "script_capabilities Script_webflow_api_specialist = webflow_api_specialist_capabilities"
| "script_capabilities Script_database_architect = database_architect_capabilities"
| "script_capabilities Script_deployment_engineer = deployment_engineer_capabilities"
| "script_capabilities Script_qa_tester = qa_tester_capabilities"
| "script_capabilities Script_technical_writer = technical_writer_capabilities"
| "script_capabilities Script_security_auditor = security_auditor_capabilities"
| "script_capabilities Script_performance_optimizer = performance_optimizer_capabilities"

fun script_actions :: "agent_script \<Rightarrow> namespace \<Rightarrow> string list" where
  "script_actions Script_pdf_ocr_parser args = pdf_ocr_parser_actions args"
| "script_actions Script_hubspot_api_specialist args = hubspot_api_specialist_actions args"
| "script_actions Script_webflow_api_specialist args = webflow_api_specialist_actions args"
| "script_actions a args = []"

fun script_body :: "agent_script \<Rightarrow> namespace \<Rightarrow> string list \<times> int" where
  "script_body Script_architect_planner = architect_planner_body"
| "script_body Script_code_executioner = code_executioner_body"
| "script_body Script_ui_ux_designer = ui_ux_designer_body"
| "script_body Script_pdf_ocr_parser = pdf_ocr_parser_body"
| "script_body Script_research_scientist = research_scientist_body"
| "script_body Script_google_api_specialist = google_api_specialist_body"
| "script_body Script_meta_api_specialist = meta_api_specialist_body"
| "script_body Script_groundtruth_api_specialist = groundtruth_api_specialist_body"
| "script_body Script_hubspot_api_specialist = hubspot_api_specialist_body"
| "script_body Script_webflow_api_specialist = webflow_api_specialist_body"
| "script_body Script_database_architect = database_architect_body"
| "script_body Script_deployment_engineer = deployment_engineer_body"
| "script_body Script_qa_tester = qa_tester_body"
| "script_body Script_technical_writer = technical_writer_body"
| "script_body Script_security_auditor = security_auditor_body"
| "script_body Script_performance_optimizer = performance_optimizer_body"

definition script_main :: "agent_script \<Rightarrow> string list \<Rightarrow> run_result" where
  "script_main a argv = run_main (script_parser a) (script_body a) argv"


section \<open>Agent metadata discovery (\<^verbatim>\<open>database/seed_agents.py\<close>)\<close>

text \<open>
  \<^verbatim>\<open>extract_agent_metadata\<close> reads a script and searches its text with regular
  expressions. Each search is written out as the function the expression denotes
  (leftmost match; a lazy group ends at the first place the rest of the pattern matches).
\<close>

text \<open>The text before and after the first occurrence of \<open>sub\<close>.\<close>

fun split_first :: "string \<Rightarrow> string \<Rightarrow> (string \<times> string) option" where
  "split_first sub [] = (if sub = [] then Some ([], []) else None)"
| "split_first sub (c # cs) =
     (if startswith (c # cs) sub then Some ([], drop (length sub) (c # cs))
      else map_option (\<lambda>(front, after). (c # front, after)) (split_first sub cs))"

definition TRIPLE_QUOTE :: string where
  "TRIPLE_QUOTE = [CHR 0x22, CHR 0x22, CHR 0x22]"

text \<open>\<^verbatim>\<open>re.search(r'"""(.*?)"""', content, re.DOTALL)\<close>: group 1.\<close>

definition docstring_match :: "string \<Rightarrow> string option" where
  "docstring_match content =
     (case split_first TRIPLE_QUOTE content of
        None \<Rightarrow> None
      | Some (front, rest) \<Rightarrow> map_option fst (split_first TRIPLE_QUOTE rest))"

text \<open>\<^verbatim>\<open>re.search(r"'--limit'.*?default=(\d+)", content)\<close>: group 1. The dot does not match a
  newline.\<close>

fun limit_tail :: "string \<Rightarrow> string option" where
  "limit_tail [] = None"
| "limit_tail (c # cs) =
     (if startswith (c # cs) ''default='' \<and> takeWhile is_digit (drop 8 (c # cs)) \<noteq> []
      then Some (takeWhile is_digit (drop 8 (c # cs)))
      else if c = NL then None
      else limit_tail cs)"

definition QUOTED_LIMIT :: string where
  "QUOTED_LIMIT = [CHR 0x27] @ ''--limit'' @ [CHR 0x27]"

fun limit_match :: "string \<Rightarrow> string option" where
  "limit_match [] = None"
| "limit_match (c # cs) =
     (if startswith (c # cs) QUOTED_LIMIT then
        (case limit_tail (drop 9 (c # cs)) of
           Some digits \<Rightarrow> Some digits
         | None \<Rightarrow> limit_match cs)
      else limit_match cs)"

text \<open>\<^verbatim>\<open>re.search(r"AI_MODEL\s*=\s*['\"]([^'\"]+)", content)\<close>: group 1.\<close>

definition is_quote :: "char \<Rightarrow> bool" where
  "is_quote c = (c = CHR 0x27 \<or> c = CHR 0x22)"

definition model_at :: "string \<Rightarrow> string option" where
  "model_at s =
     (if startswith s ''AI_MODEL'' then
        (case dropWhile is_space (drop 8 s) of
           e # after_eq \<Rightarrow>
             if e = CHR ''='' then
               (case dropWhile is_space after_eq of
                  q # value \<Rightarrow>
                    if is_quote q \<and> takeWhile (\<lambda>c. \<not> is_quote c) value \<noteq> []
                    then Some (takeWhile (\<lambda>c. \<not> is_quote c) value)
                    else None
                | [] \<Rightarrow> None)
             else None
         | [] \<Rightarrow> None)
      else None)"

fun model_match :: "string \<Rightarrow> string option" where
  "model_match [] = None"
| "model_match (c # cs) =
     (case model_at (c # cs) of
        Some m \<Rightarrow> Some m
      | None \<Rightarrow> model_match cs)"

text \<open>\<^verbatim>\<open>re.search(r'Steps?:\s*\n(.*?)(?:\n\n|Usage:)', doc, re.DOTALL)\<close>: group 1. The greedy
  \<^verbatim>\<open>\s*\<close> must leave a newline for \<^verbatim>\<open>\n\<close>: it first tries the last newline of the
  run of whitespace after the colon, then the earlier ones.\<close>

fun lazy_group :: "string \<Rightarrow> string option" where
  "lazy_group [] = None"
| "lazy_group (c # cs) =
     (if startswith (c # cs) [NL, NL] \<or> startswith (c # cs) ''Usage:'' then Some []
      else map_option (\<lambda>g. c # g) (lazy_group cs))"

fun newline_tails :: "string \<Rightarrow> string list" where
  "newline_tails [] = []"
| "newline_tails (c # cs) =
     (if is_space c then (if c = NL then [cs] else []) @ newline_tails cs else [])"

fun first_some :: "'a option list \<Rightarrow> 'a option" where
  "first_some [] = None"
| "first_some (None # xs) = first_some xs"
| "first_some (Some x # xs) = Some x"

definition steps_at :: "string \<Rightarrow> string option" where
  "steps_at s =
     (let after_colon =
            (if startswith s ''Steps:'' then Some (drop 6 s)
             else if startswith s ''Step:'' then Some (drop 5 s)
             else None)
      in case after_colon of
           None \<Rightarrow> None
         | Some t \<Rightarrow> first_some (map lazy_group (rev (newline_tails t))))"

fun steps_match :: "string \<Rightarrow> string option" where
  "steps_match [] = None"
| "steps_match (c # cs) =
     (case steps_at (c # cs) of
        Some g \<Rightarrow> Some g
      | None \<Rightarrow> steps_match cs)"

text \<open>\<^verbatim>\<open>len(re.findall(r'^\s*\d+\.', steps_text, re.MULTILINE))\<close>. \<open>step_item s\<close> is the length
  of a match that starts where \<open>s\<close> starts; the flag of \<open>count_items\<close> says whether the
  position is the start of a line.\<close>

definition step_item :: "string \<Rightarrow> nat option" where
  "step_item s =
     (let spaces = takeWhile is_space s;
          digits = takeWhile is_digit (dropWhile is_space s);
          rest = dropWhile is_digit (dropWhile is_space s)
      in if digits \<noteq> [] \<and> startswith rest ''.''
         then Some (length spaces + length digits + 1)
         else None)"

fun count_items :: "bool \<Rightarrow> string \<Rightarrow> nat" where
  "count_items bol [] = 0"
| "count_items bol (c # cs) =
     (case (if bol then step_item (c # cs) else None) of
        Some n \<Rightarrow> Suc (count_items False (drop (n - 1) cs))
      | None \<Rightarrow> count_items (c = NL) cs)"

text \<open>\<^verbatim>\<open>Path(p).stem\<close> (POSIX): the last component of the path that is neither empty nor
  \<^verbatim>\<open>.\<close>, without its last suffix.\<close>

fun split_on :: "char \<Rightarrow> string \<Rightarrow> string list" where
  "split_on sep [] = [[]]"
| "split_on sep (c # cs) =
     (case split_on sep cs of
        part # parts \<Rightarrow> if c = sep then [] # part # parts else (c # part) # parts
      | [] \<Rightarrow> [[c]])"

definition path_name :: "string \<Rightarrow> string" where
  "path_name p =
     (case rev (filter (\<lambda>part. part \<noteq> [] \<and> part \<noteq> ''.'') (split_on (CHR ''/'') p)) of
        n # ns \<Rightarrow> n
      | [] \<Rightarrow> [])"

definition path_stem :: "string \<Rightarrow> string" where
  "path_stem p =
     (let n = path_name p;
          suffix = rev (takeWhile (\<lambda>c. c \<noteq> CHR ''.'') (rev n));
          i = length n - length suffix - 1
      in if CHR ''.'' \<in> set n \<and> 0 < i \<and> suffix \<noteq> [] then take i n else n)"

record metadata =
  meta_description :: string
  meta_parameters :: "(string \<times> pyval) list"
  meta_steps_count :: nat
  meta_tags :: "string list"

text \<open>The tag rules, in the order of the source: a tag is appended when the script's name
  contains the first word or the lower-cased description contains the second.\<close>

definition tag_rule :: "string \<Rightarrow> string \<Rightarrow> string \<Rightarrow> string \<Rightarrow> string \<Rightarrow> string list" where
  "tag_rule script_name description in_name in_description tag =
     (if contains script_name in_name \<or> contains (lower description) in_description
      then [tag] else [])"

definition extract_agent_metadata :: "string \<Rightarrow> string \<Rightarrow> metadata" where
  "extract_agent_metadata script_path content =
     (let docstring = docstring_match content;
          description =
            (case docstring of
               Some doc \<Rightarrow> takeWhile (\<lambda>c. c \<noteq> NL) (strip doc)
             | None \<Rightarrow> []);
          parameters =
            (if contains content ''--limit'' then
               (case limit_match content of
                  Some digits \<Rightarrow> [(''--limit'', PyInt (int (nat_of_digits digits)))]
                | None \<Rightarrow> [])
             else []) @
            (if contains content ''--model'' then
               (case model_match content of
                  Some m \<Rightarrow> [(''--model'', PyStr m)]
                | None \<Rightarrow> [])
             else []);
          steps_count =
            (case (case docstring of Some doc \<Rightarrow> steps_match doc | None \<Rightarrow> None) of
               Some steps_text \<Rightarrow> count_items True steps_text
             | None \<Rightarrow> 0);
          script_name = path_stem script_path;
          tags =
            [''python''] @
            tag_rule script_name description ''enrich'' ''enrich'' ''enrichment'' @
            tag_rule script_name description ''import'' ''import'' ''import'' @
            tag_rule script_name description ''diagnose'' ''debug'' ''debugging'' @
            tag_rule script_name description ''health'' ''monitor'' ''monitoring'' @
            tag_rule script_name description ''deploy'' ''preflight'' ''deployment'' @
            tag_rule script_name description ''maintenance'' ''orchestrat'' ''orchestration'' @
            (if contains content ''gpt-5.2'' \<or> contains content ''gpt-5-mini''
             then [''ai-powered''] else [])
      in \<lparr>meta_description = take 500 description,
          meta_parameters = parameters,
          meta_steps_count = steps_count,
          meta_tags = tags\<rparr>)"

section \<open>The agent registry and its seed scripts\<close>

text \<open>
  The registry is the table \<^verbatim>\<open>agents\<close> of a PostgreSQL database; both seed scripts write
  it, and the table \<^verbatim>\<open>projects\<close>, through SQL statements. The schema is not part of the
  repository. A table is modelled as the list of its rows; a row has the columns the
  statements name, and \<open>other_columns\<close> stands for every column of \<^verbatim>\<open>agents\<close> that no
  statement of the seeds names. An \<^verbatim>\<open>INSERT\<close> gives such a column, and a named column it
  leaves out, the default of the table, which the database state carries. Statements are
  taken to succeed; what the seeds print is left out.

  The statement \<^verbatim>\<open>ON CONFLICT (project_id, name)\<close> of \<^verbatim>\<open>seed_agents.py\<close> needs a unique
  index on these two columns, and \<^verbatim>\<open>ON CONFLICT (name)\<close> one on the project name;
  \<open>well_formed\<close> states these constraints and that identifiers are unique.
\<close>

record agent_info =
  name :: string
  description :: string
  script_path :: string
  language :: string
  parameters :: "(string \<times> pyval) list"
  tags :: "string list"

text \<open>An entry of \<^verbatim>\<open>CORE_AGENTS\<close>. The cost is a Python float literal; the model keeps the
  decimal it denotes.\<close>

record agent_descriptor = agent_info +
  default_schedule :: "string option"
  estimated_cost :: rat
  capabilities :: "string list"

record project_row =
  project_id :: nat
  project_name :: string
  github_repo :: "string option"
  project_description :: string

record agent_row =
  agent_id :: nat
  agent_project_id :: nat
  agent_name :: string
  agent_description :: string
  agent_script_path :: string
  agent_language :: string
  agent_parameters :: "(string \<times> pyval) list"
  agent_tags :: "string list"
  agent_default_schedule :: "string option"
  other_columns :: "(string \<times> string) list"

record database =
  projects :: "project_row list"
  agents :: "agent_row list"
  schedule_default :: "string option"
  other_defaults :: "(string \<times> string) list"

definition fresh_id :: "nat list \<Rightarrow> nat" where
  "fresh_id ids = Suc (foldr max ids 0)"

text \<open>The columns of the unique index of \<^verbatim>\<open>agents\<close>.\<close>

definition row_key :: "agent_row \<Rightarrow> nat \<times> string" where
  "row_key r = (agent_project_id r, agent_name r)"

definition well_formed :: "database \<Rightarrow> bool" where
  "well_formed db =
     (distinct (map project_name (projects db)) \<and>
      distinct (map project_id (projects db)) \<and>
      distinct (map row_key (agents db)) \<and>
      distinct (map agent_id (agents db)))"

text \<open>\<^verbatim>\<open>os.getenv('DATABASE_URL')\<close> is \<open>None\<close> when the variable is unset;
  \<^verbatim>\<open>not DATABASE_URL\<close> also holds for the empty string.\<close>

definition env_set :: "string option \<Rightarrow> bool" where
  "env_set v = (case v of None \<Rightarrow> False | Some s \<Rightarrow> s \<noteq> [])"

subsection \<open>\<^verbatim>\<open>database/seed_core_agents.py\<close>\<close>
definition core_architect_planner :: agent_descriptor where
  "core_architect_planner = \<lparr>
     name = ''architect-planner'',
     description =
       ''Master architect that designs system architecture, creates technical '' @
       ''specifications, and plans project structure. Expert in Supabase, Vercel, '' @
       ''React, Node.js, Python, and PostgreSQL. Creates comprehensive READMEs, '' @
       ''architecture diagrams, and implementation plans.'',
     script_path =
       ''/Users/andrewandersen/Desktop/mission-control-dashboard/agents/architect_planner.py'',
     language = ''python'',
     parameters =
       [(''--project-type'', PyStr ''web-app''), (''--complexity'', PyStr ''medium''),
        (''--model'', PyStr ''gpt-5.2''), (''--output-format'', PyStr ''markdown'')],
     tags = [''architecture'', ''planning'', ''design'', ''gpt-5.2'', ''expensive''],
     default_schedule = None,
     estimated_cost = 15 / 100,
     capabilities =
       [''system-architecture'', ''database-design'', ''api-design'',
        ''tech-stack-selection'', ''readme-creation'', ''documentation'']\<rparr>"

definition core_code_executioner :: agent_descriptor where
  "core_code_executioner = \<lparr>
     name = ''code-executioner'',
     description =
       ''Heavy-duty coding agent that writes, debugs, and tests production-ready code. '' @
       ''Handles full-stack development including frontend (React, Vite), backend '' @
       ''(Node.js, Express, Python), and database operations. Includes automated '' @
       ''testing and debugging capabilities.'',
     script_path =
       ''/Users/andrewandersen/Desktop/mission-control-dashboard/agents/code_executioner.py'',
     language = ''python'',
     parameters =
       [(''--language'', PyStr ''auto''), (''--include-tests'', PyBool True),
        (''--model'', PyStr ''gpt-5-mini''), (''--max-files'', PyInt 10)],
     tags = [''coding'', ''development'', ''testing'', ''debugging'', ''gpt-5-mini'',
           ''moderate-cost''],
     default_schedule = None,
     estimated_cost = 8 / 100,
     capabilities =
       [''code-generation'', ''bug-fixing'', ''test-writing'', ''code-refactoring'',
        ''performance-optimization'', ''error-handling'']\<rparr>"

definition core_ui_ux_designer :: agent_descriptor where
  "core_ui_ux_designer = \<lparr>
     name = ''ui-ux-designer'',
     description =
       ''UI/UX specialist focused on creating accessible, on-brand, and visually '' @
       ''appealing interfaces. Handles CSS, Tailwind, component design, color schemes, '' @
       ''typography, and responsive design. Ensures WCAG accessibility compliance and '' @
       ''brand consistency.'',
     script_path =
       ''/Users/andrewandersen/Desktop/mission-control-dashboard/agents/ui_ux_designer.py'',
     language = ''python'',
     parameters =
       [(''--brand'', PyStr ''SchooLinks''), (''--framework'', PyStr ''tailwind''),
        (''--model'', PyStr ''gpt-5-mini''), (''--accessibility'', PyStr ''wcag-aa'')],
     tags = [''ui'', ''ux'', ''design'', ''css'', ''accessibility'', ''gpt-5-mini'',
           ''moderate-cost''],
     default_schedule = None,
     estimated_cost = 6 / 100,
     capabilities =
       [''ui-design'', ''css-styling'', ''component-creation'', ''accessibility-audit'',
        ''responsive-design'', ''brand-compliance'']\<rparr>"

definition core_pdf_ocr_parser :: agent_descriptor where
  "core_pdf_ocr_parser = \<lparr>
     name = ''pdf-ocr-parser'',
     description =
       ''Advanced document processing agent that extracts text from PDFs, performs OCR '' @
       ''on images, and uses AI reasoning to understand and structure parsed content. '' @
       ''Handles complex layouts, tables, forms, handwritten text, and multilingual '' @
       ''documents. Provides intelligent content analysis, entity extraction, and '' @
       ''structured data transformation.'',
     script_path =
       ''/Users/andrewandersen/Desktop/mission-control-dashboard/agents/pdf_ocr_parser.py'',
     language = ''python'',
     parameters =
       [(''--ocr-engine'', PyStr ''tesseract''), (''--ai-reasoning'', PyBool True),
        (''--extract-tables'', PyBool True), (''--model'', PyStr ''gpt-5-mini''),
        (''--output-format'', PyStr ''structured-json'')],
     tags = [''pdf'', ''ocr'', ''document-processing'', ''ai-reasoning'', ''data-extraction'',
           ''gpt-5-mini'', ''moderate-cost''],
     default_schedule = None,
     estimated_cost = 8 / 100,
     capabilities =
       [''pdf-text-extraction'', ''ocr-image-processing'', ''handwritten-text-recognition'',
        ''table-extraction'', ''form-data-extraction'', ''ai-content-analysis'',
        ''entity-recognition'', ''document-classification'', ''multilingual-support'',
        ''structured-output'', ''content-summarization'', ''metadata-extraction'']\<rparr>"

definition core_research_scientist :: agent_descriptor where
  "core_research_scientist = \<lparr>
     name = ''research-scientist'',
     description =
       ''R&D agent that performs parallel research, evaluates technologies, analyzes '' @
       ''best practices, and provides data-driven recommendations. Reviews '' @
       ''architectural decisions, code quality, and suggests improvements based on '' @
       ''industry standards.'',
     script_path =
       ''/Users/andrewandersen/Desktop/mission-control-dashboard/agents/research_scientist.py'',
     language = ''python'',
     parameters =
       [(''--depth'', PyStr ''comprehensive''), (''--model'', PyStr ''gpt-5.2''),
        (''--include-comparisons'', PyBool True), (''--sources'', PyInt 5)],
     tags = [''research'', ''analysis'', ''r&d'', ''gpt-5.2'', ''expensive''],
     default_schedule = None,
     estimated_cost = 12 / 100,
     capabilities =
       [''technology-research'', ''code-review'', ''best-practices-analysis'',
        ''competitive-analysis'', ''documentation-review'', ''performance-benchmarking'']\<rparr>"

definition core_google_api_specialist :: agent_descriptor where
  "core_google_api_specialist = \<lparr>
     name = ''google-api-specialist'',
     description =
       ''Expert in Google APIs including Google Drive, Google Sheets, Google Calendar, '' @
       ''Google Analytics, and Google Cloud Platform services. Handles OAuth, service '' @
       ''accounts, and complex API integrations.'',
     script_path =
       ''/Users/andrewandersen/Desktop/mission-control-dashboard/agents/google_api_specialist.py'',
     language = ''python'',
     parameters =
       [(''--api-type'', PyStr ''drive''), (''--auth-method'', PyStr ''service-account''),
        (''--model'', PyStr ''gpt-4o-mini'')],
     tags = [''api'', ''google'', ''integration'', ''gpt-4o-mini'', ''cheap''],
     default_schedule = None,
     estimated_cost = 2 / 100,
     capabilities =
       [''google-drive-integration'', ''google-sheets-integration'', ''oauth-setup'',
        ''service-account-config'', ''batch-operations'', ''file-sync'']\<rparr>"

definition core_meta_api_specialist :: agent_descriptor where
  "core_meta_api_specialist = \<lparr>
     name = ''meta-api-specialist'',
     description =
       ''Expert in Facebook/Meta APIs including Facebook Graph API, Instagram API, Meta '' @
       ''Business Suite, and Ad Manager. Handles campaign management, audience '' @
       ''targeting, and analytics.'',
     script_path =
       ''/Users/andrewandersen/Desktop/mission-control-dashboard/agents/meta_api_specialist.py'',
     language = ''python'',
     parameters =
       [(''--platform'', PyStr ''facebook''), (''--api-version'', PyStr ''v18.0''),
        (''--model'', PyStr ''gpt-4o-mini'')],
     tags = [''api'', ''meta'', ''facebook'', ''advertising'', ''gpt-4o-mini'', ''cheap''],
     default_schedule = None,
     estimated_cost = 2 / 100,
     capabilities =
       [''facebook-ads-management'', ''instagram-integration'', ''audience-targeting'',
        ''campaign-analytics'', ''meta-pixel-setup'', ''catalog-management'']\<rparr>"

definition core_groundtruth_api_specialist :: agent_descriptor where
  "core_groundtruth_api_specialist = \<lparr>
     name = ''groundtruth-api-specialist'',
     description =
       ''Expert in Ground Truth API for educational data, student information systems, '' @
       ''and academic analytics. Handles data synchronization, reporting, and '' @
       ''compliance requirements.'',
     script_path =
       ''/Users/andrewandersen/Desktop/mission-control-dashboard/agents/groundtruth_api_specialist.py'',
     language = ''python'',
     parameters =
       [(''--data-type'', PyStr ''student-info''), (''--sync-mode'', PyStr ''incremental''),
        (''--model'', PyStr ''gpt-4o-mini'')],
     tags = [''api'', ''groundtruth'', ''education'', ''data-sync'', ''gpt-4o-mini'', ''cheap''],
     default_schedule = None,
     estimated_cost = 2 / 100,
     capabilities =
       [''student-data-sync'', ''academic-reporting'', ''compliance-validation'',
        ''data-transformation'', ''webhook-handling'', ''batch-processing'']\<rparr>"

definition core_hubspot_api_specialist :: agent_descriptor where
  "core_hubspot_api_specialist = \<lparr>
     name = ''hubspot-api-specialist'',
     description =
       ''Expert in HubSpot APIs for CRM, marketing automation, content management, and '' @
       ''analytics. Handles contact/company management, email campaigns, landing pages, '' @
       ''blog posts, forms, workflows, and HubSpot-hosted content extraction (PDFs, web '' @
       ''pages). Integrates with HubSpot CMS for content enrichment.'',
     script_path =
       ''/Users/andrewandersen/Desktop/mission-control-dashboard/agents/hubspot_api_specialist.py'',
     language = ''python'',
     parameters =
       [(''--api-type'', PyStr ''crm''), (''--auth-method'', PyStr ''private-app''),
        (''--model'', PyStr ''gpt-4o-mini'')],
     tags = [''api'', ''hubspot'', ''crm'', ''marketing'', ''content-extraction'',
           ''gpt-4o-mini'', ''cheap''],
     default_schedule = None,
     estimated_cost = 2 / 100,
     capabilities =
       [''crm-contact-management'', ''company-management'', ''deal-pipeline-automation'',
        ''email-campaign-management'', ''landing-page-integration'',
        ''blog-post-management'', ''form-submission-handling'', ''workflow-automation'',
        ''hubspot-pdf-extraction'', ''content-enrichment'', ''analytics-reporting'']\<rparr>"

definition core_webflow_api_specialist :: agent_descriptor where
  "core_webflow_api_specialist = \<lparr>
     name = ''webflow-api-specialist'',
     description =
       ''Expert in Webflow CMS API, Designer API, and Data API. Handles CMS collections '' @
       ''and items, site management, page publishing, asset management, form '' @
       ''submissions, e-commerce operations, and webhook integrations. Specializes in '' @
       ''content sync, landing page imports, and real-time CMS updates used in '' @
       ''marketing content portals.'',
     script_path =
       ''/Users/andrewandersen/Desktop/mission-control-dashboard/agents/webflow_api_specialist.py'',
     language = ''python'',
     parameters =
       [(''--api-type'', PyStr ''cms''), (''--auth-method'', PyStr ''api-token''),
        (''--model'', PyStr ''gpt-4o-mini'')],
     tags = [''api'', ''webflow'', ''cms'', ''website'', ''design'', ''content-sync'',
           ''gpt-4o-mini'', ''cheap''],
     default_schedule = None,
     estimated_cost = 2 / 100,
     capabilities =
       [''cms-collection-management'', ''cms-item-crud'', ''site-publishing'',
        ''page-management'', ''asset-upload-download'', ''form-submission-handling'',
        ''webhook-setup'', ''content-import-export'', ''landing-page-sync'',
        ''blog-post-management'', ''resource-library-sync'', ''ecommerce-integration'',
        ''custom-code-injection'', ''domain-management'']\<rparr>"

definition core_database_architect :: agent_descriptor where
  "core_database_architect = \<lparr>
     name = ''database-architect'',
     description =
       ''Database specialist for Supabase/PostgreSQL. Designs schemas, writes '' @
       ''migrations, optimizes queries, sets up RLS policies, and ensures data '' @
       ''integrity. Expert in indexing, performance tuning, and scaling.'',
     script_path =
       ''/Users/andrewandersen/Desktop/mission-control-dashboard/agents/database_architect.py'',
     language = ''python'',
     parameters =
       [(''--database'', PyStr ''postgresql''), (''--provider'', PyStr ''supabase''),
        (''--model'', PyStr ''gpt-5-mini'')],
     tags = [''database'', ''postgresql'', ''supabase'', ''gpt-5-mini'', ''moderate-cost''],
     default_schedule = None,
     estimated_cost = 5 / 100,
     capabilities =
       [''schema-design'', ''migration-creation'', ''query-optimization'', ''rls-policies'',
        ''indexing'', ''backup-strategy'']\<rparr>"

definition core_deployment_engineer :: agent_descriptor where
  "core_deployment_engineer = \<lparr>
     name = ''deployment-engineer'',
     description =
       ''DevOps specialist for Vercel, GitHub Actions, and CI/CD pipelines. Handles '' @
       ''deployments, environment configuration, secrets management, and monitoring '' @
       ''setup.'',
     script_path =
       ''/Users/andrewandersen/Desktop/mission-control-dashboard/agents/deployment_engineer.py'',
     language = ''python'',
     parameters =
       [(''--platform'', PyStr ''vercel''), (''--ci-provider'', PyStr ''github-actions''),
        (''--model'', PyStr ''gpt-4o-mini'')],
     tags = [''devops'', ''deployment'', ''ci-cd'', ''vercel'', ''gpt-4o-mini'', ''cheap''],
     default_schedule = None,
     estimated_cost = 2 / 100,
     capabilities =
       [''vercel-deployment'', ''github-actions'', ''environment-config'',
        ''secrets-management'', ''domain-setup'', ''monitoring'']\<rparr>"

definition core_qa_tester :: agent_descriptor where
  "core_qa_tester = \<lparr>
     name = ''qa-tester'',
     description =
       ''Quality assurance specialist that writes comprehensive tests, performs manual '' @
       ''testing, and ensures code quality. Handles unit tests, integration tests, E2E '' @
       ''tests, and accessibility testing.'',
     script_path =
       ''/Users/andrewandersen/Desktop/mission-control-dashboard/agents/qa_tester.py'',
     language = ''python'',
     parameters =
       [(''--test-type'', PyStr ''all''), (''--coverage-threshold'', PyInt 80),
        (''--model'', PyStr ''gpt-4o-mini'')],
     tags = [''testing'', ''qa'', ''quality'', ''gpt-4o-mini'', ''cheap''],
     default_schedule = None,
     estimated_cost = 3 / 100,
     capabilities =
       [''unit-testing'', ''integration-testing'', ''e2e-testing'',
        ''accessibility-testing'', ''test-coverage-analysis'', ''bug-reporting'']\<rparr>"

definition core_technical_writer :: agent_descriptor where
  "core_technical_writer = \<lparr>
     name = ''technical-writer'',
     description =
       ''Documentation specialist that creates comprehensive technical documentation, '' @
       ''API documentation, user guides, and inline code comments. Ensures clarity and '' @
       ''completeness.'',
     script_path =
       ''/Users/andrewandersen/Desktop/mission-control-dashboard/agents/technical_writer.py'',
     language = ''python'',
     parameters =
       [(''--doc-type'', PyStr ''technical''), (''--format'', PyStr ''markdown''),
        (''--model'', PyStr ''gpt-4o-mini'')],
     tags = [''documentation'', ''writing'', ''gpt-4o-mini'', ''cheap''],
     default_schedule = None,
     estimated_cost = 2 / 100,
     capabilities =
       [''api-documentation'', ''user-guides'', ''readme-creation'', ''inline-comments'',
        ''changelog-generation'', ''tutorial-creation'']\<rparr>"

definition core_security_auditor :: agent_descriptor where
  "core_security_auditor = \<lparr>
     name = ''security-auditor'',
     description =
       ''Security specialist that audits code for vulnerabilities, ensures secure '' @
       ''authentication, validates data handling, and checks compliance with security '' @
       ''best practices.'',
     script_path =
       ''/Users/andrewandersen/Desktop/mission-control-dashboard/agents/security_auditor.py'',
     language = ''python'',
     parameters =
       [(''--severity-threshold'', PyStr ''medium''),
        (''--compliance'', PyStr ''owasp-top-10''), (''--model'', PyStr ''gpt-5-mini'')],
     tags = [''security'', ''audit'', ''compliance'', ''gpt-5-mini'', ''moderate-cost''],
     default_schedule = None,
     estimated_cost = 6 / 100,
     capabilities =
       [''vulnerability-scanning'', ''auth-validation'', ''data-security-audit'',
        ''secrets-detection'', ''compliance-check'', ''security-recommendations'']\<rparr>"

definition core_performance_optimizer :: agent_descriptor where
  "core_performance_optimizer = \<lparr>
     name = ''performance-optimizer'',
     description =
       ''Performance specialist that analyzes and optimizes frontend performance, '' @
       ''backend efficiency, database queries, and API response times. Uses profiling '' @
       ''and benchmarking.'',
     script_path =
       ''/Users/andrewandersen/Desktop/mission-control-dashboard/agents/performance_optimizer.py'',
     language = ''python'',
     parameters =
       [(''--target'', PyStr ''all''), (''--metric'', PyStr ''lighthouse''),
        (''--model'', PyStr ''gpt-5-mini'')],
     tags = [''performance'', ''optimization'', ''speed'', ''gpt-5-mini'', ''moderate-cost''],
     default_schedule = None,
     estimated_cost = 5 / 100,
     capabilities =
       [''frontend-optimization'', ''backend-optimization'', ''query-optimization'',
        ''caching-strategy'', ''bundle-size-reduction'', ''lighthouse-audit'']\<rparr>"

definition CORE_AGENTS :: "agent_descriptor list" where
  "CORE_AGENTS =
     [core_architect_planner, core_code_executioner, core_ui_ux_designer,
      core_pdf_ocr_parser, core_research_scientist, core_google_api_specialist,
      core_meta_api_specialist, core_groundtruth_api_specialist, core_hubspot_api_specialist,
      core_webflow_api_specialist, core_database_architect, core_deployment_engineer,
      core_qa_tester, core_technical_writer, core_security_auditor, core_performance_optimizer]"

text \<open>
  \<^verbatim>\<open>INSERT INTO projects (name, description) VALUES (...) ON CONFLICT (name) DO UPDATE SET
  description = EXCLUDED.description RETURNING id\<close>: the identifier and the new state.
\<close>

definition upsert_project :: "string \<Rightarrow> string \<Rightarrow> database \<Rightarrow> nat \<times> database" where
  "upsert_project n d db =
     (case find (\<lambda>r. project_name r = n) (projects db) of
        Some existing \<Rightarrow>
          (project_id existing,
           db\<lparr>projects :=
                map (\<lambda>r. if project_name r = n then r\<lparr>project_description := d\<rparr> else r)
                  (projects db)\<rparr>)
      | None \<Rightarrow>
          (let i = fresh_id (map project_id (projects db))
           in (i, db\<lparr>projects := projects db @
                 [\<lparr>project_id = i, project_name = n, github_repo = None,
                   project_description = d\<rparr>]\<rparr>)))"

text \<open>\<^verbatim>\<open>SELECT id FROM agents WHERE name = %s AND project_id = %s\<close>, then \<^verbatim>\<open>fetchone()\<close>.\<close>

definition select_agent :: "string \<Rightarrow> nat \<Rightarrow> database \<Rightarrow> nat option" where
  "select_agent n pid db =
     map_option agent_id (find (\<lambda>r. agent_name r = n \<and> agent_project_id r = pid) (agents db))"

text \<open>\<^verbatim>\<open>UPDATE agents SET description, script_path, language, parameters, tags,
  default_schedule WHERE id = %s\<close>: the \<^verbatim>\<open>SET\<close> clause on one row, and the statement.\<close>

definition set_core_columns :: "agent_descriptor \<Rightarrow> agent_row \<Rightarrow> agent_row" where
  "set_core_columns agent_data r =
     r\<lparr>agent_description := description agent_data,
       agent_script_path := script_path agent_data,
       agent_language := language agent_data,
       agent_parameters := parameters agent_data,
       agent_tags := tags agent_data,
       agent_default_schedule := default_schedule agent_data\<rparr>"

definition update_agent :: "agent_descriptor \<Rightarrow> nat \<Rightarrow> database \<Rightarrow> database" where
  "update_agent agent_data i db =
     db\<lparr>agents := map (\<lambda>r. if agent_id r = i then set_core_columns agent_data r else r) (agents db)\<rparr>"

text \<open>\<^verbatim>\<open>INSERT INTO agents (name, description, script_path, language, parameters, tags,
  default_schedule, project_id) VALUES (...)\<close>: the new row, and the statement.\<close>

definition core_row :: "agent_descriptor \<Rightarrow> nat \<Rightarrow> database \<Rightarrow> agent_row" where
  "core_row agent_data pid db =
     \<lparr>agent_id = fresh_id (map agent_id (agents db)),
      agent_project_id = pid,
      agent_name = name agent_data,
      agent_description = description agent_data,
      agent_script_path = script_path agent_data,
      agent_language = language agent_data,
      agent_parameters = parameters agent_data,
      agent_tags = tags agent_data,
      agent_default_schedule = default_schedule agent_data,
      other_columns = other_defaults db\<rparr>"

definition insert_agent :: "agent_descriptor \<Rightarrow> nat \<Rightarrow> database \<Rightarrow> database" where
  "insert_agent agent_data pid db = db\<lparr>agents := agents db @ [core_row agent_data pid db]\<rparr>"

text \<open>The body of the loop \<^verbatim>\<open>for agent_data in CORE_AGENTS\<close>. The state is the database
  with \<^verbatim>\<open>seeded_count\<close> and \<^verbatim>\<open>updated_count\<close>.\<close>

definition seed_agent :: "nat \<Rightarrow> database \<times> nat \<times> nat \<Rightarrow> agent_descriptor \<Rightarrow> database \<times> nat \<times> nat" where
  "seed_agent pid st agent_data =
     (case st of (db, seeded_count, updated_count) \<Rightarrow>
        (case select_agent (name agent_data) pid db of
           Some existing \<Rightarrow> (update_agent agent_data existing db, seeded_count, updated_count + 1)
         | None \<Rightarrow> (insert_agent agent_data pid db, seeded_count + 1, updated_count)))"

text \<open>
  What a run of \<^verbatim>\<open>seed_agents()\<close> leaves: it exits with status 1 before touching the
  database when \<^verbatim>\<open>DATABASE_URL\<close> is not set; otherwise it commits the seeded state, with
  the two counts. The cost analysis printed after the commit divides by the number of
  agents tagged \<^verbatim>\<open>cheap\<close>, \<^verbatim>\<open>moderate-cost\<close> and \<^verbatim>\<open>expensive\<close>, and raises
  \<^verbatim>\<open>ZeroDivisionError\<close> when one of these is zero.
\<close>

datatype seed_outcome =
    NoDatabaseUrl
  | Committed database nat nat
  | CommittedThenZeroDivision database nat nat

definition cost_analysis_defined :: "agent_descriptor list \<Rightarrow> bool" where
  "cost_analysis_defined agents_list =
     (filter (\<lambda>a. ''cheap'' \<in> set (tags a)) agents_list \<noteq> [] \<and>
      filter (\<lambda>a. ''moderate-cost'' \<in> set (tags a)) agents_list \<noteq> [] \<and>
      filter (\<lambda>a. ''expensive'' \<in> set (tags a)) agents_list \<noteq> [])"

text \<open>\<^verbatim>\<open>seed_agents()\<close>, with the module's globals \<^verbatim>\<open>DATABASE_URL\<close> and \<^verbatim>\<open>CORE_AGENTS\<close> as
  arguments.\<close>

definition seed_agents :: "string option \<Rightarrow> agent_descriptor list \<Rightarrow> database \<Rightarrow> seed_outcome" where
  "seed_agents database_url core_agents db =
     (if \<not> env_set database_url then NoDatabaseUrl
      else case upsert_project ''Mission Control''
                  ''Core worker agents for CEO Agent orchestration'' db of
        (pid, db1) \<Rightarrow>
          (case foldl (seed_agent pid) (db1, 0, 0) core_agents of
             (db2, seeded_count, updated_count) \<Rightarrow>
               if cost_analysis_defined core_agents
               then Committed db2 seeded_count updated_count
               else CommittedThenZeroDivision db2 seeded_count updated_count))"

definition seed_core_agents :: "string option \<Rightarrow> database \<Rightarrow> seed_outcome" where
  "seed_core_agents database_url db = seed_agents database_url CORE_AGENTS db"

text \<open>The database a run leaves behind.\<close>

fun seeded :: "seed_outcome \<Rightarrow> database \<Rightarrow> database" where
  "seeded NoDatabaseUrl db = db"
| "seeded (Committed db' c u) db = db'"
| "seeded (CommittedThenZeroDivision db' c u) db = db'"

subsection \<open>\<^verbatim>\<open>database/seed_agents.py\<close>\<close>







text \<open>
  \<^verbatim>\<open>INSERT INTO agents (project_id, name, description, script_path, language, parameters,
  tags) VALUES (...) ON CONFLICT (project_id, name) DO UPDATE SET description, script_path,
  parameters, tags RETURNING (xmax = 0) AS inserted\<close>: the \<^verbatim>\<open>SET\<close> clause on one row, the
  new row, and the statement, which gives the new state and \<open>inserted\<close>.
\<close>

definition set_discovered_columns :: "agent_info \<Rightarrow> agent_row \<Rightarrow> agent_row" where
  "set_discovered_columns agent r =
     r\<lparr>agent_description := description agent,
       agent_script_path := script_path agent,
       agent_parameters := parameters agent,
       agent_tags := tags agent\<rparr>"






section \<open>The Phase-4 migration (\<^verbatim>\<open>database/migrate_phase4.py\<close>)\<close>















section \<open>Notions used in the statements\<close>

text \<open>Two namespaces that agree everywhere but at \<open>k\<close>, and two parse results that are of the
  same kind, with related namespaces.\<close>

definition same_but :: "string \<Rightarrow> namespace \<Rightarrow> namespace \<Rightarrow> bool" where
  "same_but k m m' = (\<forall>k'. k' \<noteq> k \<longrightarrow> m k' = m' k')"

fun rel_result :: "(namespace \<Rightarrow> namespace \<Rightarrow> bool) \<Rightarrow> parse_result \<Rightarrow> parse_result \<Rightarrow> bool" where
  "rel_result R (Parsed m) (Parsed m') = R m m'"
| "rel_result R HelpExit HelpExit = True"
| "rel_result R (UsageError e) (UsageError e') = (e = e')"
| "rel_result R r r' = False"


text \<open>The script a registry entry names: the file of \<^verbatim>\<open>agents/\<close> its \<open>script_path\<close> ends
  with.\<close>

definition registered_script :: "string \<Rightarrow> agent_script option" where
  "registered_script path =
     map_of
       [(''architect_planner.py'', Script_architect_planner),
        (''code_executioner.py'', Script_code_executioner),
        (''ui_ux_designer.py'', Script_ui_ux_designer),
        (''pdf_ocr_parser.py'', Script_pdf_ocr_parser),
        (''research_scientist.py'', Script_research_scientist),
        (''google_api_specialist.py'', Script_google_api_specialist),
        (''meta_api_specialist.py'', Script_meta_api_specialist),
        (''groundtruth_api_specialist.py'', Script_groundtruth_api_specialist),
        (''hubspot_api_specialist.py'', Script_hubspot_api_specialist),
        (''webflow_api_specialist.py'', Script_webflow_api_specialist),
        (''database_architect.py'', Script_database_architect),
        (''deployment_engineer.py'', Script_deployment_engineer),
        (''qa_tester.py'', Script_qa_tester),
        (''technical_writer.py'', Script_technical_writer),
        (''security_auditor.py'', Script_security_auditor),
        (''performance_optimizer.py'', Script_performance_optimizer)]
       (path_name path)"

text \<open>A parser accepts a flag name when the first pass resolves it to one of its actions
  (the option string itself or an unambiguous abbreviation).\<close>

definition accepts_flag :: "parser \<Rightarrow> string \<Rightarrow> bool" where
  "accepts_flag p flag =
     (case parse_optional p flag of
        Inr (Opt (Some a) os sep explicit_arg) \<Rightarrow> True
      | _ \<Rightarrow> False)"

text \<open>The flags of the registered parameter templates that the registered script's parser
  does not accept, with the name of the agent.\<close>

definition rejected_flags :: "agent_descriptor \<Rightarrow> (string \<times> string) list" where
  "rejected_flags d =
     map (\<lambda>(flag, v). (name d, flag))
       (filter (\<lambda>(flag, v).
            case registered_script (script_path d) of
              Some a \<Rightarrow> \<not> accepts_flag (script_parser a) flag
            | None \<Rightarrow> True)
          (parameters d))"

text \<open>The rows of the registry for a project and an agent name, what it means for a row to
  hold the values of a descriptor that the core seed writes, and the columns neither seed
  (respectively the discovery seed) ever updates.\<close>

definition rows_for :: "nat \<Rightarrow> string \<Rightarrow> database \<Rightarrow> agent_row list" where
  "rows_for pid n db = filter (\<lambda>r. row_key r = (pid, n)) (agents db)"

definition project_named :: "string \<Rightarrow> database \<Rightarrow> nat option" where
  "project_named n db = map_option project_id (find (\<lambda>r. project_name r = n) (projects db))"

definition holds_values :: "agent_row \<Rightarrow> agent_descriptor \<Rightarrow> bool" where
  "holds_values r d =
     (agent_name r = name d \<and>
      agent_description r = description d \<and>
      agent_script_path r = script_path d \<and>
      agent_language r = language d \<and>
      agent_parameters r = parameters d \<and>
      agent_tags r = tags d \<and>
      agent_default_schedule r = default_schedule d)"

definition core_unmanaged :: "agent_row \<Rightarrow> nat \<times> nat \<times> string \<times> (string \<times> string) list" where
  "core_unmanaged r = (agent_id r, agent_project_id r, agent_name r, other_columns r)"

definition discovery_unmanaged ::
  "agent_row \<Rightarrow> nat \<times> nat \<times> string \<times> string \<times> string option \<times> (string \<times> string) list" where
  "discovery_unmanaged r =
     (agent_id r, agent_project_id r, agent_name r, agent_language r, agent_default_schedule r,
      other_columns r)"

definition empty_database :: database where
  "empty_database = \<lparr>projects = [], agents = [], schedule_default = None, other_defaults = []\<rparr>"


section \<open>Concrete inputs\<close>



text \<open>The two counts of a run of the core seed.\<close>

fun seed_counts :: "seed_outcome \<Rightarrow> nat \<times> nat" where
  "seed_counts NoDatabaseUrl = (0, 0)"
| "seed_counts (Committed db c u) = (c, u)"
| "seed_counts (CommittedThenZeroDivision db c u) = (c, u)"




section \<open>Properties of the agent scripts\<close>

lemma agent_fleet_all: "a \<in> set agent_fleet"
  by (cases a) (simp_all add: agent_fleet_def)

lemma agent_fleet_count: "length agent_fleet = 16 \<and> distinct agent_fleet"
  by (simp add: agent_fleet_def)

lemma script_body_eq:
  "script_body a args = (script_verbose a args @ script_capabilities a @ script_actions a args, 0)"
  by (cases a)
     (simp_all add: architect_planner_body_def code_executioner_body_def ui_ux_designer_body_def
        pdf_ocr_parser_body_def research_scientist_body_def google_api_specialist_body_def
        meta_api_specialist_body_def groundtruth_api_specialist_body_def
        hubspot_api_specialist_body_def webflow_api_specialist_body_def
        database_architect_body_def deployment_engineer_body_def qa_tester_body_def
        technical_writer_body_def security_auditor_body_def performance_optimizer_body_def)

lemma take_action_sim:
  "same_but k m m' \<Longrightarrow> rel_result (same_but k) (take_action a xs m) (take_action a xs m')"
  by (auto simp: take_action_def same_but_def split: action_kind.splits list.splits sum.splits)

lemma take_actions_sim:
  "same_but k m m' \<Longrightarrow> rel_result (same_but k) (take_actions ts m) (take_actions ts m')"
proof (induction ts arbitrary: m m')
  case Nil
  then show ?case by simp
next
  case (Cons t ts)
  obtain a xs where t: "t = (a, xs)" by (cases t)
  from take_action_sim [OF Cons.prems, of a xs] Cons.IH show ?case
    by (cases "take_action a xs m"; cases "take_action a xs m'") (auto simp: t)
qed

lemma consume_sim:
  "same_but k m m' \<Longrightarrow> rel_result (same_but k) (consume p toks m ex) (consume p toks m' ex)"
proof (induction p toks m ex arbitrary: m' rule: consume.induct)
  case (1 p ns extras)
  then show ?case by simp
next
  case (2 p s a os sep explicit_arg rest ns extras)
  show ?case
  proof (cases "consume_optional p a os sep explicit_arg rest")
    case (Inl e)
    then show ?thesis by simp
  next
    case (Inr r)
    obtain tuples skipped used where r: "r = (tuples, skipped, used)" by (cases r)
    from take_actions_sim [OF "2.prems", of tuples] show ?thesis
      using "2.IH" [OF Inr [unfolded r] refl refl]
      by (cases "take_actions tuples ns"; cases "take_actions tuples m'") (auto simp: Inr r)
  qed
qed (auto)


lemmas script_defs =
  architect_planner_body_def code_executioner_body_def ui_ux_designer_body_def
  pdf_ocr_parser_body_def research_scientist_body_def google_api_specialist_body_def
  meta_api_specialist_body_def groundtruth_api_specialist_body_def
  hubspot_api_specialist_body_def webflow_api_specialist_body_def
  database_architect_body_def deployment_engineer_body_def qa_tester_body_def
  technical_writer_body_def security_auditor_body_def performance_optimizer_body_def
  architect_planner_verbose_def code_executioner_verbose_def ui_ux_designer_verbose_def
  pdf_ocr_parser_verbose_def research_scientist_verbose_def google_api_specialist_verbose_def
  meta_api_specialist_verbose_def groundtruth_api_specialist_verbose_def
  hubspot_api_specialist_verbose_def webflow_api_specialist_verbose_def
  database_architect_verbose_def deployment_engineer_verbose_def qa_tester_verbose_def
  technical_writer_verbose_def security_auditor_verbose_def performance_optimizer_verbose_def
  pdf_ocr_parser_actions_def hubspot_api_specialist_actions_def webflow_api_specialist_actions_def

lemma attr_same_but: "same_but k m m' \<Longrightarrow> k' \<noteq> k \<Longrightarrow> attr m k' = attr m' k'"
  by (simp add: same_but_def attr_def)

lemma script_body_same_but:
  assumes "same_but ''dry_run'' m m'"
  shows "script_body a m = script_body a m'"
proof -
  have r: "\<And>k'. k' \<noteq> ''dry_run'' \<Longrightarrow> attr m k' = attr m' k'"
    using assms by (rule attr_same_but)
  show ?thesis
    by (cases a) (simp_all add: script_defs r Let_def)
qed

lemma find_dry_run:
  "find_option (script_parser a) ''--dry-run'' = Some (store_true [''--dry-run''])"
  by (cases a)
     (simp_all add: find_option_def option_string_actions_def ArgumentParser_def help_action_def
        add_argument_def store_true_def
        architect_planner_parser_def code_executioner_parser_def ui_ux_designer_parser_def
        pdf_ocr_parser_parser_def research_scientist_parser_def google_api_specialist_parser_def
        meta_api_specialist_parser_def groundtruth_api_specialist_parser_def
        hubspot_api_specialist_parser_def webflow_api_specialist_parser_def
        database_architect_parser_def deployment_engineer_parser_def qa_tester_parser_def
        technical_writer_parser_def security_auditor_parser_def performance_optimizer_parser_def)

lemma store_true_dry_run:
  "kind (store_true [''--dry-run'']) = StoreTrue \<and> dest (store_true [''--dry-run'']) = ''dry_run''"
  by (simp add: store_true_def add_argument_def infer_dest_def is_long_def)

lemma parse_optional_exact:
  "find_option p (CHR ''-'' # cs) = Some a \<Longrightarrow>
   parse_optional p (CHR ''-'' # cs) = Inr (Opt (Some a) (CHR ''-'' # cs) False None)"
  by (simp add: parse_optional_def)

lemma consume_Parsed_no_extras: "consume p toks m ex = Parsed m' \<Longrightarrow> ex = []"
proof (induction p toks m ex rule: consume.induct)
  case (2 p s a os sep explicit_arg rest ns extras)
  then show ?case
    by (auto split: sum.splits prod.splits parse_result.splits)
qed (auto split: if_splits)

lemma prepend_dry_run:
  assumes "parse_args (script_parser a) argv = Parsed args"
  shows "\<exists>args'. parse_args (script_parser a) (''--dry-run'' # argv) = Parsed args' \<and>
           same_but ''dry_run'' args args'"
proof -
  let ?p = "script_parser a"
  obtain toks where toks: "classify ?p argv = Inr toks"
    and run: "consume ?p toks (initial_namespace ?p) [] = Parsed args"
    using assms by (auto simp: parse_args_def split: sum.splits)
  have tok: "parse_optional ?p ''--dry-run'' = Inr (Opt (Some (store_true [''--dry-run''])) ''--dry-run'' False None)"
    using parse_optional_exact [of ?p "''-dry-run''"] find_dry_run [of a] by simp
  let ?m = "(initial_namespace ?p)(''dry_run'' \<mapsto> PyBool True)"
  have "same_but ''dry_run'' (initial_namespace ?p) ?m"
    by (simp add: same_but_def)
  from consume_sim [OF this, of ?p toks "[]"] run
  obtain args' where run': "consume ?p toks ?m [] = Parsed args'" and sb: "same_but ''dry_run'' args args'"
    by (cases "consume ?p toks ?m []") auto
  have "parse_args ?p (''--dry-run'' # argv) = Parsed args'"
    using toks tok run' store_true_dry_run
    by (simp add: parse_args_def takes_value_def take_action_def)
  with sb show ?thesis by blast
qed



lemma consume_optional_rest:
  "consume_optional p a os sep ea rest = Inr (ts, sk, used) \<Longrightarrow>
     (used = 0 \<and> (\<forall>rest'. consume_optional p a os sep ea rest' = Inr (ts, sk, 0))) \<or>
     (used = 1 \<and> (\<exists>s rest0. rest = (s, Arg) # rest0 \<and>
        (\<forall>rest1. consume_optional p a os sep ea ((s, Arg) # rest1) = Inr (ts, sk, 1))))"
proof (induction p a os sep ea rest arbitrary: ts sk used rule: consume_optional.induct)
  case (1 p a os sep rest)
  then show ?case
    by (auto split: if_splits list.splits token.splits)
next
  case (2 p a os sep rest)
  then show ?case
    by (auto split: if_splits)
next
  case (3 p a os sep c cs rest)
  show ?case
  proof (cases "\<not> takes_value a \<and> \<not> is_long os \<and> \<not> (sep \<or> c = CHR ''-'')")
    case False
    with "3.prems" show ?thesis by (auto split: if_splits)
  next
    case True
    show ?thesis
    proof (cases "find_option p [CHR ''-'', c]")
      case None
      with True "3.prems" show ?thesis by auto
    next
      case (Some a')
      define f where "f = (\<lambda>r. case cs of
           [] \<Rightarrow> consume_optional p a' [CHR ''-'', c] False None r
         | d # ds \<Rightarrow>
             if d = CHR ''='' then consume_optional p a' [CHR ''-'', c] True (Some ds) r
             else consume_optional p a' [CHR ''-'', c] False (Some (d # ds)) r)"
      have unfold: "consume_optional p a os sep (Some (c # cs)) r =
          (case f r of Inl e \<Rightarrow> Inl e | Inr (t, e, u) \<Rightarrow> Inr ((a, []) # t, e, u))" for r
        using True Some by (simp add: f_def)
      have IHf: "(u = 0 \<and> (\<forall>rest'. f rest' = Inr (t, e, 0))) \<or>
          (u = 1 \<and> (\<exists>s rest0. rest = (s, Arg) # rest0 \<and>
             (\<forall>rest1. f ((s, Arg) # rest1) = Inr (t, e, 1))))"
        if "f rest = Inr (t, e, u)" for t e u
      proof (cases cs)
        case Nil
        with that "3.IH"(1) [OF _ _ Some Nil, of t e u] True show ?thesis
          by (simp add: f_def del: consume_optional.simps)
      next
        case (Cons d ds)
        show ?thesis
        proof (cases "d = CHR ''=''")
          case eq: True
          with Cons that "3.IH"(2) [OF _ _ Some Cons eq, of t e u] True show ?thesis
            by (simp add: f_def del: consume_optional.simps)
        next
          case neq: False
          with Cons that "3.IH"(3) [OF _ _ Some Cons neq, of t e u] True show ?thesis
            by (simp add: f_def del: consume_optional.simps)
        qed
      qed
      from "3.prems" obtain t where ft: "f rest = Inr (t, sk, used)" and ts: "ts = (a, []) # t"
        by (auto simp: unfold simp del: consume_optional.simps split: sum.splits)
      from IHf [OF ft] show ?thesis
        by (auto simp: unfold ts simp del: consume_optional.simps)
    qed
  qed
qed


lemma same_but_trans: "same_but k m m' \<Longrightarrow> same_but k m' m'' \<Longrightarrow> same_but k m m''"
  by (simp add: same_but_def)

lemma same_but_sym: "same_but k m m' \<Longrightarrow> same_but k m' m"
  by (simp add: same_but_def)

lemma consume_filter:
  assumes d: "kind d = StoreTrue" "dest d = k"
  shows "consume p toks m ex = Parsed m' \<Longrightarrow>
     \<forall>s t. (s, t) \<in> set toks \<longrightarrow> s = x \<longrightarrow> t = Opt (Some d) x False None \<Longrightarrow>
     \<exists>m''. consume p (filter (\<lambda>(s, t). s \<noteq> x) toks) m ex = Parsed m'' \<and> same_but k m' m''"
proof (induction p toks m ex arbitrary: m' rule: consume.induct)
  case (1 p ns extras)
  then show ?case by (auto simp: same_but_def)
next
  case (2 p s a os sep explicit_arg rest ns extras)
  let ?P = "\<lambda>(s, t). s \<noteq> x"
  from "2.prems"(1) obtain ts sk used ns1 where
    co: "consume_optional p a os sep explicit_arg rest = Inr (ts, sk, used)"
    and ta: "take_actions ts ns = Parsed ns1"
    and run: "consume p (drop used rest) ns1 (extras @ sk) = Parsed m'"
    by (auto split: sum.splits prod.splits parse_result.splits)
  have toks_rest: "\<forall>s t. (s, t) \<in> set (drop used rest) \<longrightarrow> s = x \<longrightarrow> t = Opt (Some d) x False None"
    using "2.prems"(2) by (auto dest: in_set_dropD)
  from "2.IH" [OF co refl refl ta run toks_rest]
  obtain m2 where run2: "consume p (filter ?P (drop used rest)) ns1 (extras @ sk) = Parsed m2"
    and sb2: "same_but k m' m2" by blast
  have co': "consume_optional p a os sep explicit_arg (filter ?P rest) = Inr (ts, sk, used)"
    and dr: "drop used (filter ?P rest) = filter ?P (drop used rest)"
  proof -
    from consume_optional_rest [OF co]
    consider "used = 0" "\<forall>rest'. consume_optional p a os sep explicit_arg rest' = Inr (ts, sk, 0)"
      | s0 rest0 where "used = 1" "rest = (s0, Arg) # rest0"
          "\<forall>rest1. consume_optional p a os sep explicit_arg ((s0, Arg) # rest1) = Inr (ts, sk, 1)"
      by blast
    then have "consume_optional p a os sep explicit_arg (filter ?P rest) = Inr (ts, sk, used)
         \<and> drop used (filter ?P rest) = filter ?P (drop used rest)"
    proof cases
      case 1
      then show ?thesis by simp
    next
      case 2
      have "s0 \<noteq> x"
        using "2.prems"(2) 2(2) by auto
      with 2 show ?thesis by simp
    qed
    then show "consume_optional p a os sep explicit_arg (filter ?P rest) = Inr (ts, sk, used)"
      and "drop used (filter ?P rest) = filter ?P (drop used rest)" by simp_all
  qed
  show ?case
  proof (cases "s = x")
    case False
    then show ?thesis
      using co' dr ta run2 sb2 by auto
  next
    case True
    with "2.prems"(2)
    have tok: "a = d" "os = x" "\<not> sep" "explicit_arg = None" by auto
    with co d have "ts = [(d, [])]" "sk = []" "used = 0"
      by (auto simp: takes_value_def)
    with ta d have ns1: "ns1 = ns(k \<mapsto> PyBool True)"
      by (auto simp: take_action_def)
    have "same_but k ns1 ns" by (simp add: ns1 same_but_def)
    from consume_sim [OF this, of p "filter ?P rest" extras] run2
    obtain m3 where run3: "consume p (filter ?P rest) ns extras = Parsed m3"
      and sb3: "same_but k m2 m3"
      using \<open>sk = []\<close> \<open>used = 0\<close>
      by (cases "consume p (filter ?P rest) ns extras") auto
    from True run3 same_but_trans [OF sb2 sb3] show ?thesis by auto
  qed
qed (auto dest!: consume_Parsed_no_extras)


lemma classify_tokens:
  "classify p argv = Inr toks \<Longrightarrow> ''--'' \<notin> set argv \<Longrightarrow>
   \<forall>s t. (s, t) \<in> set toks \<longrightarrow> parse_optional p s = Inr t"
  by (induction argv arbitrary: toks) (auto split: sum.splits if_splits)

lemma classify_removeAll:
  "classify p argv = Inr toks \<Longrightarrow> ''--'' \<notin> set argv \<Longrightarrow>
   classify p (removeAll x argv) = Inr (filter (\<lambda>(s, t). s \<noteq> x) toks)"
  by (induction argv arbitrary: toks) (auto split: sum.splits if_splits)

lemma classify_dashdash:
  "classify p argv = Inr toks \<Longrightarrow> ''--'' \<in> set argv \<Longrightarrow> (''--'', DashDash) \<in> set toks"
  by (induction argv arbitrary: toks) (auto split: sum.splits if_splits)

lemma consume_DashDash:
  "(s, DashDash) \<in> set toks \<Longrightarrow> consume p toks m ex \<noteq> Parsed m'"
proof (induction p toks m ex rule: consume.induct)
  case (1 p ns extras)
  then show ?case by simp
next
  case (2 p s' a os sep explicit_arg rest ns extras)
  show ?case
  proof
    assume run: "consume p ((s', Opt (Some a) os sep explicit_arg) # rest) ns extras = Parsed m'"
    then obtain ts sk used ns1 where
      co: "consume_optional p a os sep explicit_arg rest = Inr (ts, sk, used)"
      and ta: "take_actions ts ns = Parsed ns1"
      and run1: "consume p (drop used rest) ns1 (extras @ sk) = Parsed m'"
      by (auto split: sum.splits prod.splits parse_result.splits)
    from "2.prems" have "(s, DashDash) \<in> set rest" by simp
    with consume_optional_rest [OF co] have "(s, DashDash) \<in> set (drop used rest)"
      by auto
    from "2.IH" [OF co refl refl ta this] run1 show False by simp
  qed
qed (auto dest!: consume_Parsed_no_extras)

lemma parsed_no_dashdash:
  assumes "parse_args p argv = Parsed args"
  shows "''--'' \<notin> set argv"
proof
  assume "''--'' \<in> set argv"
  from assms obtain toks where toks: "classify p argv = Inr toks"
    and run: "consume p toks (initial_namespace p) [] = Parsed args"
    by (auto simp: parse_args_def split: sum.splits)
  from classify_dashdash [OF toks \<open>''--'' \<in> set argv\<close>] consume_DashDash run
  show False by blast
qed

lemma remove_dry_run:
  assumes "parse_args (script_parser a) argv = Parsed args"
  shows "\<exists>args'. parse_args (script_parser a) (removeAll ''--dry-run'' argv) = Parsed args' \<and>
           same_but ''dry_run'' args args'"
proof -
  let ?p = "script_parser a"
  let ?d = "store_true [''--dry-run'']"
  from assms obtain toks where toks: "classify ?p argv = Inr toks"
    and run: "consume ?p toks (initial_namespace ?p) [] = Parsed args"
    by (auto simp: parse_args_def split: sum.splits)
  have nd: "''--'' \<notin> set argv" using assms by (rule parsed_no_dashdash)
  have tok: "parse_optional ?p ''--dry-run'' = Inr (Opt (Some ?d) ''--dry-run'' False None)"
    using parse_optional_exact [of ?p "''-dry-run''"] find_dry_run [of a] by simp
  have "\<forall>s t. (s, t) \<in> set toks \<longrightarrow> s = ''--dry-run'' \<longrightarrow> t = Opt (Some ?d) ''--dry-run'' False None"
    using classify_tokens [OF toks nd] tok by auto
  from consume_filter [OF _ _ run this, of "''dry_run''"] store_true_dry_run
  obtain args' where
    "consume ?p (filter (\<lambda>(s, t). s \<noteq> ''--dry-run'') toks) (initial_namespace ?p) [] = Parsed args'"
    "same_but ''dry_run'' args args'" by blast
  then show ?thesis
    using classify_removeAll [OF toks nd, of "''--dry-run''"] by (auto simp: parse_args_def)
qed

text \<open>A namespace the parser returns defines every destination of the parser, so no
  attribute a script reads is missing.\<close>

lemma initial_namespace_dom:
  "a \<in> set p \<Longrightarrow> kind a \<noteq> Help \<Longrightarrow> dest a \<in> dom (initial_namespace p)"
  by (induction p) (auto simp: Let_def)

lemma take_actions_dom:
  "take_actions ts m = Parsed m' \<Longrightarrow> dom m \<subseteq> dom m'"
proof (induction ts arbitrary: m)
  case Nil
  then show ?case by simp
next
  case (Cons t ts)
  obtain a xs where t: "t = (a, xs)" by (cases t)
  from Cons.prems obtain m1 where 1: "take_action a xs m = Parsed m1"
    and 2: "take_actions ts m1 = Parsed m'"
    by (auto simp: t split: parse_result.splits)
  from 1 have "dom m \<subseteq> dom m1"
    by (auto simp: take_action_def split: action_kind.splits list.splits sum.splits)
  with Cons.IH [OF 2] show ?case by blast
qed

lemma consume_dom:
  "consume p toks m ex = Parsed m' \<Longrightarrow> dom m \<subseteq> dom m'"
proof (induction p toks m ex rule: consume.induct)
  case (2 p s a os sep explicit_arg rest ns extras)
  from "2.prems" obtain ts sk used ns1 where
    co: "consume_optional p a os sep explicit_arg rest = Inr (ts, sk, used)"
    and ta: "take_actions ts ns = Parsed ns1"
    and run: "consume p (drop used rest) ns1 (extras @ sk) = Parsed m'"
    by (auto split: sum.splits prod.splits parse_result.splits)
  from "2.IH" [OF co refl refl ta run] take_actions_dom [OF ta] show ?case by blast
qed (auto split: if_splits)

lemma parsed_defines_destinations:
  assumes "parse_args p argv = Parsed args" and "a \<in> set p" and "kind a \<noteq> Help"
  shows "dest a \<in> dom args"
proof -
  from assms(1) obtain toks where "consume p toks (initial_namespace p) [] = Parsed args"
    by (auto simp: parse_args_def split: sum.splits)
  from consume_dom [OF this] initial_namespace_dom [OF assms(2,3)] show ?thesis by blast
qed

lemmas parser_defs =
  architect_planner_parser_def code_executioner_parser_def ui_ux_designer_parser_def
  pdf_ocr_parser_parser_def research_scientist_parser_def google_api_specialist_parser_def
  meta_api_specialist_parser_def groundtruth_api_specialist_parser_def
  hubspot_api_specialist_parser_def webflow_api_specialist_parser_def
  database_architect_parser_def deployment_engineer_parser_def qa_tester_parser_def
  technical_writer_parser_def security_auditor_parser_def performance_optimizer_parser_def

lemmas find_defs =
  find_option_def option_string_actions_def ArgumentParser_def help_action_def
  add_argument_def store_true_def

lemma find_short_verbose:
  "find_option (script_parser a) ''-v'' = Some (store_true [''-v'', ''--verbose''])"
  by (cases a) (simp_all add: find_defs parser_defs)

lemma find_long_verbose:
  "find_option (script_parser a) ''--verbose'' = Some (store_true [''-v'', ''--verbose''])"
  by (cases a) (simp_all add: find_defs parser_defs)

lemma store_true_verbose:
  "kind (store_true [''-v'', ''--verbose'']) = StoreTrue \<and>
   dest (store_true [''-v'', ''--verbose'']) = ''verbose''"
  by (simp add: store_true_def add_argument_def infer_dest_def is_long_def)

lemma parse_dry_run_and:
  assumes "find_option (script_parser a) (CHR ''-'' # v) = Some (store_true [''-v'', ''--verbose''])"
    and "CHR ''-'' # v \<noteq> ''--''"
  shows "parse_args (script_parser a) [''--dry-run'', CHR ''-'' # v] =
     Parsed ((initial_namespace (script_parser a))
                (''dry_run'' \<mapsto> PyBool True, ''verbose'' \<mapsto> PyBool True))"
proof -
  have t1: "parse_optional (script_parser a) ''--dry-run'' =
      Inr (Opt (Some (store_true [''--dry-run''])) ''--dry-run'' False None)"
    using parse_optional_exact [of "script_parser a" "''-dry-run''"] find_dry_run [of a] by simp
  have t2: "parse_optional (script_parser a) (CHR ''-'' # v) =
      Inr (Opt (Some (store_true [''-v'', ''--verbose''])) (CHR ''-'' # v) False None)"
    using parse_optional_exact [OF assms(1)] .
  show ?thesis
    using t1 t2 assms(2) store_true_dry_run store_true_verbose
    by (simp add: parse_args_def takes_value_def take_action_def)
qed

text \<open>
  C4. Each of the 16 agent scripts parses an invocation that supplies only \<^verbatim>\<open>--dry-run\<close>
  and \<^verbatim>\<open>-v\<close> (or \<^verbatim>\<open>--verbose\<close>): the parser returns a namespace in which both flags are
  set, and the run ends with exit status 0.
\<close>

theorem minimum_flags_accepted:
  "(\<exists>args. parse_args (script_parser a) [''--dry-run'', ''-v''] = Parsed args \<and>
       args ''dry_run'' = Some (PyBool True) \<and> args ''verbose'' = Some (PyBool True)) \<and>
   (\<exists>args. parse_args (script_parser a) [''--dry-run'', ''--verbose''] = Parsed args \<and>
       args ''dry_run'' = Some (PyBool True) \<and> args ''verbose'' = Some (PyBool True)) \<and>
   exit_status (script_main a [''--dry-run'', ''-v'']) = 0 \<and>
   exit_status (script_main a [''--dry-run'', ''--verbose'']) = 0 \<and>
   a \<in> set agent_fleet \<and> length agent_fleet = 16"
proof -
  have s: "parse_args (script_parser a) [''--dry-run'', ''-v''] =
     Parsed ((initial_namespace (script_parser a))
                (''dry_run'' \<mapsto> PyBool True, ''verbose'' \<mapsto> PyBool True))"
    using parse_dry_run_and [of a "''v''"] find_short_verbose [of a] by simp
  have l: "parse_args (script_parser a) [''--dry-run'', ''--verbose''] =
     Parsed ((initial_namespace (script_parser a))
                (''dry_run'' \<mapsto> PyBool True, ''verbose'' \<mapsto> PyBool True))"
    using parse_dry_run_and [of a "''-verbose''"] find_long_verbose [of a] by simp
  show ?thesis
    using agent_fleet_all [of a] agent_fleet_count
    by (simp add: s l script_main_def run_main_def script_body_eq)
qed




text \<open>
  C9. For every agent script and every argument list its parser accepts, the run with
  \<^verbatim>\<open>--dry-run\<close> added in front and the run with every \<^verbatim>\<open>--dry-run\<close> removed are the same
  run as the original one: the same printed lines and the same return value. More
  generally the body of \<^verbatim>\<open>main\<close> gives the same result on any two namespaces that differ
  only in \<^verbatim>\<open>dry_run\<close>.
\<close>

theorem dry_run_unobservable:
  assumes "parse_args (script_parser a) argv = Parsed args"
  shows "script_main a (''--dry-run'' # argv) = script_main a argv \<and>
         script_main a (removeAll ''--dry-run'' argv) = script_main a argv \<and>
         (\<forall>args'. same_but ''dry_run'' args args' \<longrightarrow> script_body a args' = script_body a args)"
proof -
  from prepend_dry_run [OF assms] obtain args1 where
    p1: "parse_args (script_parser a) (''--dry-run'' # argv) = Parsed args1"
    and s1: "same_but ''dry_run'' args args1" by blast
  from remove_dry_run [OF assms] obtain args2 where
    p2: "parse_args (script_parser a) (removeAll ''--dry-run'' argv) = Parsed args2"
    and s2: "same_but ''dry_run'' args args2" by blast
  have b: "script_body a args' = script_body a args" if "same_but ''dry_run'' args args'" for args'
    using script_body_same_but [OF that, of a] by simp
  show ?thesis
    using assms p1 p2 b [OF s1] b [OF s2] b
    by (simp add: script_main_def run_main_def)
qed

theorem dry_run_unobservable_witness:
  "script_main Script_pdf_ocr_parser [''--dry-run'', ''--input'', ''scan.PDF'', ''--dry-run'', ''--ai-reasoning''] =
     script_main Script_pdf_ocr_parser [''--input'', ''scan.PDF'', ''--ai-reasoning''] \<and>
   exit_status (script_main Script_pdf_ocr_parser [''--input'', ''scan.PDF'', ''--ai-reasoning'']) = 0"
proof -
  let ?argv = "[''--dry-run'', ''--input'', ''scan.PDF'', ''--dry-run'', ''--ai-reasoning'']"
  have "\<exists>args. parse_args (script_parser Script_pdf_ocr_parser) ?argv = Parsed args"
    by (simp add: parse_args_def parse_optional_def find_defs pdf_ocr_parser_parser_def
          infer_dest_def is_long_def takes_value_def take_action_def get_values_def)
  then obtain args where p: "parse_args (script_parser Script_pdf_ocr_parser) ?argv = Parsed args" ..
  from dry_run_unobservable [OF p] have
    "script_main Script_pdf_ocr_parser (removeAll ''--dry-run'' ?argv) = script_main Script_pdf_ocr_parser ?argv"
    by blast
  moreover have "exit_status (script_main Script_pdf_ocr_parser ?argv) = 0"
    using p by (simp add: script_main_def run_main_def pdf_ocr_parser_body_def)
  ultimately show ?thesis by simp
qed

section \<open>Properties of the registered parameter templates\<close>

text \<open>
  C2 (the code does not do what the claim says). The claim: every flag name of an agent's
  registered parameter template is accepted by the parser of the agent's script. In the
  code 23 template flags of 15 agents are not options of the script they are registered
  for, nor abbreviations of one; only \<^verbatim>\<open>hubspot-api-specialist\<close> has a script that accepts
  its whole template. Invoked with the first template flag of \<^verbatim>\<open>architect-planner\<close>, the
  script \<^verbatim>\<open>architect_planner.py\<close> stops in the parser with a usage error, exit status 2.
\<close>

theorem template_flags_rejected:
  "concat (map rejected_flags CORE_AGENTS) =
     [(''architect-planner'', ''--project-type''),
      (''architect-planner'', ''--complexity''),
      (''architect-planner'', ''--output-format''),
      (''code-executioner'', ''--max-files''),
      (''ui-ux-designer'', ''--framework''),
      (''ui-ux-designer'', ''--accessibility''),
      (''research-scientist'', ''--depth''),
      (''research-scientist'', ''--include-comparisons''),
      (''research-scientist'', ''--sources''),
      (''google-api-specialist'', ''--api-type''),
      (''google-api-specialist'', ''--auth-method''),
      (''meta-api-specialist'', ''--api-version''),
      (''groundtruth-api-specialist'', ''--data-type''),
      (''groundtruth-api-specialist'', ''--sync-mode''),
      (''webflow-api-specialist'', ''--auth-method''),
      (''database-architect'', ''--database''),
      (''database-architect'', ''--provider''),
      (''deployment-engineer'', ''--ci-provider''),
      (''qa-tester'', ''--coverage-threshold''),
      (''technical-writer'', ''--format''),
      (''security-auditor'', ''--severity-threshold''),
      (''security-auditor'', ''--compliance''),
      (''performance-optimizer'', ''--metric'')] \<and>
   registered_script (script_path core_architect_planner) = Some Script_architect_planner \<and>
   script_main Script_architect_planner [''--project-type'', ''web-app''] =
     UsageFailure (UnrecognizedArguments [''--project-type'', ''web-app'']) \<and>
   exit_status (script_main Script_architect_planner [''--project-type'', ''web-app'']) = 2"
  by code_simp

section \<open>Properties of the migration\<close>






section \<open>Properties of the metadata discovery\<close>

lemma tag_rule_set: "x \<in> set (tag_rule script_name d in_name in_description tag) \<Longrightarrow> x = tag"
  by (simp add: tag_rule_def split: if_splits)

text \<open>
  C10. For every script path and every text of the file, \<^verbatim>\<open>extract_agent_metadata\<close>
  returns a description of at most 500 characters and a list of tags that starts with
  \<^verbatim>\<open>python\<close>; the tag \<^verbatim>\<open>ai-powered\<close> is the last one appended, and it is in the list exactly
  when the text contains \<^verbatim>\<open>gpt-5.2\<close> or \<^verbatim>\<open>gpt-5-mini\<close>.
\<close>

theorem metadata_description_and_tags:
  "length (meta_description (extract_agent_metadata path content)) \<le> 500 \<and>
   (\<exists>rest. meta_tags (extract_agent_metadata path content) = ''python'' # rest) \<and>
   (\<exists>base. ''ai-powered'' \<notin> set base \<and>
       meta_tags (extract_agent_metadata path content) =
         base @ (if contains content ''gpt-5.2'' \<or> contains content ''gpt-5-mini''
                 then [''ai-powered''] else [])) \<and>
   (''ai-powered'' \<in> set (meta_tags (extract_agent_metadata path content)) \<longleftrightarrow>
      contains content ''gpt-5.2'' \<or> contains content ''gpt-5-mini'')"
proof -
  define script_name where "script_name = path_stem path"
  define description where "description =
     (case docstring_match content of Some doc \<Rightarrow> takeWhile (\<lambda>c. c \<noteq> NL) (strip doc) | None \<Rightarrow> [])"
  define base where "base =
     [''python''] @
     tag_rule script_name description ''enrich'' ''enrich'' ''enrichment'' @
     tag_rule script_name description ''import'' ''import'' ''import'' @
     tag_rule script_name description ''diagnose'' ''debug'' ''debugging'' @
     tag_rule script_name description ''health'' ''monitor'' ''monitoring'' @
     tag_rule script_name description ''deploy'' ''preflight'' ''deployment'' @
     tag_rule script_name description ''maintenance'' ''orchestrat'' ''orchestration''"
  have tags: "meta_tags (extract_agent_metadata path content) =
      base @ (if contains content ''gpt-5.2'' \<or> contains content ''gpt-5-mini''
              then [''ai-powered''] else [])"
    by (simp add: extract_agent_metadata_def Let_def base_def script_name_def description_def)
  have descr: "meta_description (extract_agent_metadata path content) = take 500 description"
    by (simp add: extract_agent_metadata_def Let_def description_def)
  have nb: "''ai-powered'' \<notin> set base"
    by (auto simp: base_def dest: tag_rule_set)
  have hd: "\<exists>rest. base = ''python'' # rest"
    by (simp add: base_def)
  from hd obtain rest where rest: "base = ''python'' # rest" ..
  show ?thesis
    using nb by (auto simp: tags descr rest)
qed

section \<open>Properties of the registry seeds\<close>

subsection \<open>Lists of rows\<close>

lemma fresh_id_greater: "i \<in> set ids \<Longrightarrow> i < fresh_id ids"
  by (induction ids) (auto simp: fresh_id_def)

lemma fresh_id_notin: "fresh_id ids \<notin> set ids"
  using fresh_id_greater [of "fresh_id ids" ids] by auto

lemma find_None_filter: "find P xs = None \<longleftrightarrow> filter P xs = []"
  by (induction xs) auto

lemma find_Some_filter: "find P xs = Some x \<Longrightarrow> \<exists>ys. filter P xs = x # ys"
  by (induction xs) (auto split: if_splits)

lemma find_map_preserved:
  "(\<And>r. P (f r) = P r) \<Longrightarrow> find P (map f xs) = map_option f (find P xs)"
  by (induction xs) auto

lemma filter_key_distinct:
  "distinct (map k xs) \<Longrightarrow> length (filter (\<lambda>r. k r = v) xs) \<le> 1"
  by (induction xs) (auto simp: filter_empty_conv image_iff)

text \<open>Updating, in a list whose identifiers and keys are distinct, the rows that have the
  identifier of the first row with key \<open>v\<close>: that row alone changes.\<close>

lemma update_by_id:
  assumes "\<And>r. ident (upd r) = ident r" and "\<And>r. k (upd r) = k r"
  shows "distinct (map ident xs) \<Longrightarrow> distinct (map k xs) \<Longrightarrow>
     find (\<lambda>r. k r = v) xs = Some x \<Longrightarrow>
     map (\<lambda>r. if ident r = ident x then upd r else r) xs =
     map (\<lambda>r. if k r = v then upd r else r) xs"
proof (induction xs)
  case Nil
  then show ?case by simp
next
  case (Cons y ys)
  show ?case
  proof (cases "k y = v")
    case True
    with Cons.prems have x: "x = y" by simp
    have "ident r \<noteq> ident y \<and> k r \<noteq> v" if "r \<in> set ys" for r
      using that Cons.prems(1,2) True by (auto simp: image_iff)
    then have "map (\<lambda>r. if ident r = ident y then upd r else r) ys = ys"
      and "map (\<lambda>r. if k r = v then upd r else r) ys = ys"
      by (simp_all add: map_idI)
    with True x show ?thesis by simp
  next
    case False
    with Cons.prems have f: "find (\<lambda>r. k r = v) ys = Some x" by simp
    then have "x \<in> set ys"
      by (induction ys) (auto split: if_splits)
    with Cons.prems(1) have "ident y \<noteq> ident x" by (auto simp: image_iff)
    with False Cons.IH [OF _ _ f] Cons.prems(1,2) show ?thesis by simp
  qed
qed

lemma filter_update_key:
  assumes "\<And>r. k (upd r) = k r"
  shows "filter (\<lambda>r. k r = v') (map (\<lambda>r. if k r = v then upd r else r) xs) =
     (if v' = v then map upd (filter (\<lambda>r. k r = v) xs) else filter (\<lambda>r. k r = v') xs)"
  using assms by (induction xs) auto

lemma find_append_None: "find P xs = None \<Longrightarrow> find P (xs @ ys) = find P ys"
  by (induction xs) (auto split: if_splits)

lemma map_map_same: "(\<And>r. g (f r) = g r) \<Longrightarrow> map g (map f xs) = map g xs"
  by (induction xs) auto

subsection \<open>The project table\<close>


lemma upsert_project_named:
  "project_named n (snd (upsert_project n d db)) = Some (fst (upsert_project n d db))"
proof (cases "find (\<lambda>r. project_name r = n) (projects db)")
  case None
  then show ?thesis
    by (simp add: upsert_project_def project_named_def Let_def find_append_None)
next
  case (Some existing)
  have "find (\<lambda>r. project_name r = n)
          (map (\<lambda>r. if project_name r = n then r\<lparr>project_description := d\<rparr> else r) (projects db)) =
        map_option (\<lambda>r. if project_name r = n then r\<lparr>project_description := d\<rparr> else r)
          (find (\<lambda>r. project_name r = n) (projects db))"
    by (rule find_map_preserved) simp
  with Some show ?thesis
    by (simp add: upsert_project_def project_named_def)
qed


lemma upsert_project_well_formed:
  assumes "well_formed db"
  shows "well_formed (snd (upsert_project n d db))"
proof (cases "find (\<lambda>r. project_name r = n) (projects db)")
  case None
  then have "n \<notin> set (map project_name (projects db))"
    by (auto simp: find_None_iff)
  with None assms fresh_id_notin [of "map project_id (projects db)"] show ?thesis
    by (simp add: upsert_project_def well_formed_def Let_def)
next
  case (Some existing)
  have "map project_name (map (\<lambda>r. if project_name r = n then r\<lparr>project_description := d\<rparr> else r) (projects db))
        = map project_name (projects db)"
    and "map project_id (map (\<lambda>r. if project_name r = n then r\<lparr>project_description := d\<rparr> else r) (projects db))
        = map project_id (projects db)"
    by (rule map_map_same, simp)+
  with Some assms show ?thesis
    by (simp add: upsert_project_def well_formed_def del: map_map)
qed

subsection \<open>One statement of a seed on the registry\<close>

lemma row_key_set_core [simp]: "row_key (set_core_columns d r) = row_key r"
  and agent_id_set_core [simp]: "agent_id (set_core_columns d r) = agent_id r"
  and core_unmanaged_set_core [simp]: "core_unmanaged (set_core_columns d r) = core_unmanaged r"
  by (simp_all add: row_key_def set_core_columns_def core_unmanaged_def)

lemma row_key_set_discovered [simp]: "row_key (set_discovered_columns a r) = row_key r"
  and agent_id_set_discovered [simp]: "agent_id (set_discovered_columns a r) = agent_id r"
  and discovery_unmanaged_set_discovered [simp]:
    "discovery_unmanaged (set_discovered_columns a r) = discovery_unmanaged r"
  by (simp_all add: row_key_def set_discovered_columns_def discovery_unmanaged_def)

lemma select_agent_find:
  "select_agent n pid db = map_option agent_id (find (\<lambda>r. row_key r = (pid, n)) (agents db))"
proof -
  have "(\<lambda>r. agent_name r = n \<and> agent_project_id r = pid) = (\<lambda>r. row_key r = (pid, n))"
    by (auto simp: row_key_def)
  then show ?thesis by (simp add: select_agent_def)
qed

lemma seed_agent_insert:
  "rows_for pid (name d) db = [] \<Longrightarrow> seed_agent pid (db, c, u) d = (insert_agent d pid db, c + 1, u)"
  by (simp add: seed_agent_def select_agent_find rows_for_def find_None_filter [symmetric])

lemma seed_agent_update:
  assumes "rows_for pid (name d) db \<noteq> []"
  shows "\<exists>r. find (\<lambda>r. row_key r = (pid, name d)) (agents db) = Some r \<and>
             seed_agent pid (db, c, u) d = (update_agent d (agent_id r) db, c, u + 1)"
proof (cases "find (\<lambda>r. row_key r = (pid, name d)) (agents db)")
  case None
  with assms show ?thesis by (simp add: rows_for_def find_None_filter)
next
  case (Some r)
  then show ?thesis by (simp add: seed_agent_def select_agent_find)
qed

text \<open>The frame of one iteration of the core seed: rows are kept in place with their
  unmanaged columns, and a row is appended only if the agent has none.\<close>

lemma seed_agent_frame:
  "\<exists>db' c' u'. seed_agent pid (db, c, u) d = (db', c', u') \<and>
     projects db' = projects db \<and> other_defaults db' = other_defaults db \<and>
     schedule_default db' = schedule_default db \<and>
     map core_unmanaged (agents db') =
       map core_unmanaged (agents db) @
       (if rows_for pid (name d) db = [] then [core_unmanaged (core_row d pid db)] else []) \<and>
     (c', u') = (if rows_for pid (name d) db = [] then (c + 1, u) else (c, u + 1))"
proof (cases "rows_for pid (name d) db = []")
  case True
  then show ?thesis
    by (simp add: seed_agent_insert insert_agent_def)
next
  case False
  from seed_agent_update [OF False, of c u] obtain r :: agent_row where
    "seed_agent pid (db, c, u) d = (update_agent d (agent_id r) db, c, u + 1)" by blast
  moreover have "map core_unmanaged (agents (update_agent d (agent_id r) db)) =
      map core_unmanaged (agents db)"
    unfolding update_agent_def by (simp del: map_map, rule map_map_same) simp
  ultimately show ?thesis
    using False by (simp add: update_agent_def)
qed



lemma seed_agent_distinct:
  assumes "distinct (map agent_id (agents db))" and "distinct (map row_key (agents db))"
  shows "distinct (map agent_id (agents (fst (seed_agent pid (db, c, u) d)))) \<and>
         distinct (map row_key (agents (fst (seed_agent pid (db, c, u) d))))"
proof (cases "rows_for pid (name d) db = []")
  case True
  then have "(pid, name d) \<notin> set (map row_key (agents db))"
    by (auto simp: rows_for_def filter_empty_conv)
  moreover have "row_key (core_row d pid db) = (pid, name d)"
    and "agent_id (core_row d pid db) = fresh_id (map agent_id (agents db))"
    by (simp_all add: core_row_def row_key_def)
  ultimately show ?thesis
    using True assms fresh_id_notin [of "map agent_id (agents db)"]
    by (simp add: seed_agent_insert insert_agent_def)
next
  case False
  from seed_agent_update [OF False, of c u] obtain r :: agent_row where
    s: "seed_agent pid (db, c, u) d = (update_agent d (agent_id r) db, c, u + 1)" by blast
  have "map agent_id (agents (update_agent d (agent_id r) db)) = map agent_id (agents db)"
    and "map row_key (agents (update_agent d (agent_id r) db)) = map row_key (agents db)"
    unfolding update_agent_def by (simp del: map_map, rule map_map_same, simp)+
  with assms s show ?thesis by simp
qed

text \<open>What one iteration of the core seed leaves for the agent it handles and for every
  other pair of project and name, in a registry whose identifiers and keys are unique.\<close>

lemma seed_agent_rows:
  assumes ids: "distinct (map agent_id (agents db))" and keys: "distinct (map row_key (agents db))"
  shows "(\<exists>r. rows_for pid (name d) (fst (seed_agent pid (db, c, u) d)) = [r] \<and> holds_values r d) \<and>
         (\<forall>p n. (p, n) \<noteq> (pid, name d) \<longrightarrow>
            rows_for p n (fst (seed_agent pid (db, c, u) d)) = rows_for p n db)"
proof (cases "rows_for pid (name d) db = []")
  case True
  have k: "row_key (core_row d pid db) = (pid, name d)"
    by (simp add: core_row_def row_key_def)
  have h: "holds_values (core_row d pid db) d"
    by (simp add: core_row_def holds_values_def)
  from True k h show ?thesis
    by (auto simp: seed_agent_insert insert_agent_def rows_for_def)
next
  case False
  from seed_agent_update [OF False, of c u] obtain r :: agent_row where
    f: "find (\<lambda>r. row_key r = (pid, name d)) (agents db) = Some r"
    and s: "seed_agent pid (db, c, u) d = (update_agent d (agent_id r) db, c, u + 1)" by blast
  from find_Some_filter [OF f] obtain ys where
    ys: "filter (\<lambda>r. row_key r = (pid, name d)) (agents db) = r # ys" by blast
  with filter_key_distinct [OF keys, of "(pid, name d)"] have one: "rows_for pid (name d) db = [r]"
    by (simp add: rows_for_def)
  from ys have "r \<in> set (filter (\<lambda>r. row_key r = (pid, name d)) (agents db))" by simp
  then have n: "agent_name r = name d" by (simp add: row_key_def)
  have u: "agents (update_agent d (agent_id r) db) =
      map (\<lambda>r. if row_key r = (pid, name d) then set_core_columns d r else r) (agents db)"
    unfolding update_agent_def
    using update_by_id [of agent_id "set_core_columns d" row_key "agents db" "(pid, name d)" r,
        OF _ _ ids keys f]
    by simp
  have h: "holds_values (set_core_columns d r) d"
    using n by (simp add: holds_values_def set_core_columns_def)
  have "rows_for p n (update_agent d (agent_id r) db) =
      (if (p, n) = (pid, name d) then map (set_core_columns d) (rows_for pid (name d) db)
       else rows_for p n db)" for p n
    unfolding rows_for_def u
    using filter_update_key [of row_key "set_core_columns d" "(p, n)" "(pid, name d)" "agents db"]
    by simp
  with one h s show ?thesis by simp
qed

subsection \<open>The loops\<close>


lemma core_loop_distinct:
  "distinct (map agent_id (agents db)) \<Longrightarrow> distinct (map row_key (agents db)) \<Longrightarrow>
   distinct (map agent_id (agents (fst (foldl (seed_agent pid) (db, c, u) ds)))) \<and>
   distinct (map row_key (agents (fst (foldl (seed_agent pid) (db, c, u) ds))))"
proof (induction ds arbitrary: db c u)
  case Nil
  then show ?case by simp
next
  case (Cons d ds)
  obtain db1 c1 u1 where s: "seed_agent pid (db, c, u) d = (db1, c1, u1)"
    by (cases "seed_agent pid (db, c, u) d") auto
  with seed_agent_distinct [OF Cons.prems, of pid c u d]
  have "distinct (map agent_id (agents db1))" "distinct (map row_key (agents db1))" by simp_all
  from Cons.IH [OF this, of c1 u1] s show ?case by simp
qed

lemma core_loop_projects:
  "projects (fst (foldl (seed_agent pid) (db, c, u) ds)) = projects db"
proof (induction ds arbitrary: db c u)
  case Nil
  then show ?case by simp
next
  case (Cons d ds)
  from seed_agent_frame [of pid db c u d] obtain db1 c1 u1 where
    "seed_agent pid (db, c, u) d = (db1, c1, u1)" "projects db1 = projects db" by blast
  with Cons.IH [of db1 c1 u1] show ?case by simp
qed

lemma core_loop_other:
  "distinct (map agent_id (agents db)) \<Longrightarrow> distinct (map row_key (agents db)) \<Longrightarrow>
   n \<notin> set (map name ds) \<Longrightarrow>
   rows_for pid n (fst (foldl (seed_agent pid) (db, c, u) ds)) = rows_for pid n db"
proof (induction ds arbitrary: db c u)
  case Nil
  then show ?case by simp
next
  case (Cons d ds)
  obtain db1 c1 u1 where s: "seed_agent pid (db, c, u) d = (db1, c1, u1)"
    by (cases "seed_agent pid (db, c, u) d") auto
  with seed_agent_distinct [OF Cons.prems(1,2), of pid c u d]
  have d1: "distinct (map agent_id (agents db1))" "distinct (map row_key (agents db1))" by simp_all
  from Cons.prems(3) have "(pid, n) \<noteq> (pid, name d)" and rest: "n \<notin> set (map name ds)" by auto
  with seed_agent_rows [OF Cons.prems(1,2), of pid d c u] s
  have "rows_for pid n db1 = rows_for pid n db" by simp
  with Cons.IH [OF d1 rest, of c1 u1] s show ?case by simp
qed

lemma core_loop_rows:
  "distinct (map agent_id (agents db)) \<Longrightarrow> distinct (map row_key (agents db)) \<Longrightarrow>
   distinct (map name ds) \<Longrightarrow> d \<in> set ds \<Longrightarrow>
   \<exists>r. rows_for pid (name d) (fst (foldl (seed_agent pid) (db, c, u) ds)) = [r] \<and> holds_values r d"
proof (induction ds arbitrary: db c u)
  case Nil
  then show ?case by simp
next
  case (Cons d0 ds)
  obtain db1 c1 u1 where s: "seed_agent pid (db, c, u) d0 = (db1, c1, u1)"
    by (cases "seed_agent pid (db, c, u) d0") auto
  with seed_agent_distinct [OF Cons.prems(1,2), of pid c u d0]
  have d1: "distinct (map agent_id (agents db1))" "distinct (map row_key (agents db1))" by simp_all
  show ?case
  proof (cases "d = d0")
    case True
    from seed_agent_rows [OF Cons.prems(1,2), of pid d0 c u] s obtain r where
      r: "rows_for pid (name d0) db1 = [r]" "holds_values r d0" by auto
    from Cons.prems(3) have "name d0 \<notin> set (map name ds)" by simp
    from core_loop_other [OF d1 this, of pid c1 u1] r s True show ?thesis by simp
  next
    case False
    with Cons.prems have "d \<in> set ds" "distinct (map name ds)" by simp_all
    from Cons.IH [OF d1 this(2) this(1), of c1 u1] s show ?thesis by simp
  qed
qed

subsection \<open>The discovery seed\<close>








subsection \<open>A run of the core seed\<close>

lemma seed_agents_run:
  assumes "env_set url"
  shows "seeded (seed_agents url ds db) db0 =
           fst (foldl (seed_agent (fst (upsert_project ''Mission Control''
                  ''Core worker agents for CEO Agent orchestration'' db)))
                (snd (upsert_project ''Mission Control''
                  ''Core worker agents for CEO Agent orchestration'' db), 0, 0) ds) \<and>
         seed_counts (seed_agents url ds db) =
           snd (foldl (seed_agent (fst (upsert_project ''Mission Control''
                  ''Core worker agents for CEO Agent orchestration'' db)))
                (snd (upsert_project ''Mission Control''
                  ''Core worker agents for CEO Agent orchestration'' db), 0, 0) ds)"
  using assms by (simp add: seed_agents_def split: prod.split)

lemma seed_agents_well_formed:
  assumes "well_formed db" and "env_set url"
  shows "well_formed (seeded (seed_agents url ds db) db0)"
proof -
  let ?up = "upsert_project ''Mission Control'' ''Core worker agents for CEO Agent orchestration'' db"
  have wf1: "well_formed (snd ?up)"
    using assms(1) by (rule upsert_project_well_formed)
  then have "distinct (map agent_id (agents (snd ?up)))" "distinct (map row_key (agents (snd ?up)))"
    by (simp_all add: well_formed_def)
  from core_loop_distinct [OF this, of "fst ?up" 0 0 ds] wf1
    core_loop_projects [of "fst ?up" "snd ?up" 0 0 ds]
  show ?thesis
    by (simp add: seed_agents_run [OF assms(2)] well_formed_def)
qed

lemma seed_agents_rows:
  assumes "well_formed db" and "env_set url" and "distinct (map name ds)" and "d \<in> set ds"
  shows "\<exists>pid r. project_named ''Mission Control'' (seeded (seed_agents url ds db) db0) = Some pid \<and>
           rows_for pid (name d) (seeded (seed_agents url ds db) db0) = [r] \<and> holds_values r d"
proof -
  let ?up = "upsert_project ''Mission Control'' ''Core worker agents for CEO Agent orchestration'' db"
  have wf1: "well_formed (snd ?up)"
    using assms(1) by (rule upsert_project_well_formed)
  then have "distinct (map agent_id (agents (snd ?up)))" "distinct (map row_key (agents (snd ?up)))"
    by (simp_all add: well_formed_def)
  from core_loop_rows [OF this assms(3,4), of "fst ?up" 0 0] obtain r where
    r: "rows_for (fst ?up) (name d) (fst (foldl (seed_agent (fst ?up)) (snd ?up, 0, 0) ds)) = [r]"
      "holds_values r d" by blast
  have "project_named ''Mission Control'' (fst (foldl (seed_agent (fst ?up)) (snd ?up, 0, 0) ds)) =
      Some (fst ?up)"
    using core_loop_projects [of "fst ?up" "snd ?up" 0 0 ds] upsert_project_named
    by (simp add: project_named_def)
  with r show ?thesis
    by (auto simp: seed_agents_run [OF assms(2)])
qed

lemma seed_agent_ignores_cost:
  "seed_agent pid st (d\<lparr>estimated_cost := x\<rparr>) = seed_agent pid st d"
  by (simp add: seed_agent_def update_agent_def insert_agent_def set_core_columns_def core_row_def
        split: prod.split option.split)

subsection \<open>Re-seeding\<close>

text \<open>
  C1 as stated fails for the cost estimate: the core seed never writes
  \<^verbatim>\<open>estimated_cost\<close>. Seeding \<^verbatim>\<open>architect-planner\<close> into the empty registry and then seeding
  it again leaves the same registry whether the second descriptor carries the cost 0.15 or
  the cost 0.99, so the row does not carry the descriptor's latest cost.
\<close>

theorem reseed_cost_counterexample:
  "seed_agents (Some ''postgresql://localhost/mission_control'')
     [core_architect_planner\<lparr>estimated_cost := 99 / 100\<rparr>]
     (seeded (seed_agents (Some ''postgresql://localhost/mission_control'')
                [core_architect_planner] empty_database) empty_database) =
   seed_agents (Some ''postgresql://localhost/mission_control'')
     [core_architect_planner]
     (seeded (seed_agents (Some ''postgresql://localhost/mission_control'')
                [core_architect_planner] empty_database) empty_database) \<and>
   estimated_cost (core_architect_planner\<lparr>estimated_cost := 99 / 100\<rparr>) \<noteq>
   estimated_cost core_architect_planner"
proof -
  have same: "seed_agents url [d\<lparr>estimated_cost := x\<rparr>] db = seed_agents url [d] db" for url d x db
    by (simp add: seed_agents_def seed_agent_ignores_cost cost_analysis_defined_def)
  have differ: "estimated_cost (core_architect_planner\<lparr>estimated_cost := 99 / 100\<rparr>) \<noteq>
      estimated_cost core_architect_planner"
    by (simp add: core_architect_planner_def)
  from same differ show ?thesis by (intro conjI)
qed

text \<open>
  C1, amended. Seeding a descriptor again with the core seed, with the same or with newer
  values, leaves exactly one registry row for its name in the project
  \<^verbatim>\<open>Mission Control\<close>, and the row holds the values of the descriptor seeded last for
  description, script_path, language, parameters, tags and default_schedule (the cost
  estimate is not stored). This holds in a registry that satisfies its unique
  constraints, for descriptor lists without repeated names, when \<^verbatim>\<open>DATABASE_URL\<close> is set.
\<close>

theorem reseed_one_row_latest_values:
  assumes "well_formed db" and "env_set url" and "distinct (map name ds2)" and "d \<in> set ds2"
  shows "\<exists>pid r.
     project_named ''Mission Control''
       (seeded (seed_agents url ds2 (seeded (seed_agents url ds1 db) db))
          (seeded (seed_agents url ds1 db) db)) = Some pid \<and>
     rows_for pid (name d)
       (seeded (seed_agents url ds2 (seeded (seed_agents url ds1 db) db))
          (seeded (seed_agents url ds1 db) db)) = [r] \<and>
     holds_values r d"
proof -
  have "well_formed (seeded (seed_agents url ds1 db) db)"
    using assms(1,2) by (rule seed_agents_well_formed)
  from seed_agents_rows [OF this assms(2,3,4)] show ?thesis .
qed

theorem reseed_one_row_latest_values_witness:
  "\<exists>pid r.
     project_named ''Mission Control''
       (seeded (seed_agents (Some ''postgresql://localhost/mission_control'') [core_architect_planner]
          (seeded (seed_agents (Some ''postgresql://localhost/mission_control'')
             [core_architect_planner\<lparr>description := ''first draft''\<rparr>] empty_database) empty_database))
          (seeded (seed_agents (Some ''postgresql://localhost/mission_control'')
             [core_architect_planner\<lparr>description := ''first draft''\<rparr>] empty_database) empty_database))
       = Some pid \<and>
     rows_for pid (name core_architect_planner)
       (seeded (seed_agents (Some ''postgresql://localhost/mission_control'') [core_architect_planner]
          (seeded (seed_agents (Some ''postgresql://localhost/mission_control'')
             [core_architect_planner\<lparr>description := ''first draft''\<rparr>] empty_database) empty_database))
          (seeded (seed_agents (Some ''postgresql://localhost/mission_control'')
             [core_architect_planner\<lparr>description := ''first draft''\<rparr>] empty_database) empty_database))
       = [r] \<and>
     holds_values r core_architect_planner"
proof -
  have w: "well_formed empty_database"
    by (simp add: well_formed_def empty_database_def)
  have e: "env_set (Some ''postgresql://localhost/mission_control'')"
    by (simp add: env_set_def)
  have n: "distinct (map name [core_architect_planner])"
    and m: "core_architect_planner \<in> set [core_architect_planner]"
    by simp_all
  from reseed_one_row_latest_values [OF w e n m] show ?thesis .
qed



end
